theory Spec2Isabelle
  imports Main "HOL-Library.Word" "HOL-Library.Multiset"
begin

section \<open>Strings\<close>

text \<open>
  A JavaScript string is a sequence of UTF-16 code units. The string constants of the
  source are written out as their code units; \<open>js\<close> embeds an ASCII literal.
\<close>

type_synonym jsstring = "16 word list"

definition js :: "string \<Rightarrow> jsstring" where
  "js s = map (\<lambda>c. of_nat (of_char c)) s"

text \<open>
  \<open>String.prototype.trim\<close> removes the code units of ECMAScript's WhiteSpace and
  LineTerminator productions from both ends.
\<close>

definition isWhiteSpace :: "16 word \<Rightarrow> bool" where
  "isWhiteSpace c = (c \<in> set [0x0009, 0x000A, 0x000B, 0x000C, 0x000D, 0x0020, 0x00A0,
     0x1680, 0x2000, 0x2001, 0x2002, 0x2003, 0x2004, 0x2005, 0x2006, 0x2007, 0x2008,
     0x2009, 0x200A, 0x2028, 0x2029, 0x202F, 0x205F, 0x3000, 0xFEFF])"

definition trim :: "jsstring \<Rightarrow> jsstring" where
  "trim s = rev (dropWhile isWhiteSpace (rev (dropWhile isWhiteSpace s)))"

text \<open>\<open>Array.prototype.join\<close> on an array of strings.\<close>

fun arrayJoin :: "jsstring \<Rightarrow> jsstring list \<Rightarrow> jsstring" where
  "arrayJoin sep [] = []"
| "arrayJoin sep [x] = x"
| "arrayJoin sep (x # y # ys) = x @ sep @ arrayJoin sep (y # ys)"

section \<open>types.ts\<close>

datatype AnalysisOption =
  CHARACTER_ATTIRE | CHARACTER_POSE | CHARACTER_EXPRESSION | PHOTO_BACKGROUND
| CAMERA_ANGLE | OTHER

text \<open>An optional field of the interface is \<open>None\<close> when the key is absent.\<close>

record ImageAnalysisResult =
  characterAttire :: "jsstring option"
  characterPose :: "jsstring option"
  characterExpression :: "jsstring option"
  photoBackground :: "jsstring option"
  cameraAngle :: "jsstring option"
  otherAnalysis :: "jsstring option"

section \<open>PromptOutput.tsx: the prompt formatter\<close>

definition attirePrefix :: jsstring where
  "attirePrefix = [0x628A, 0x5716, 0x4E2D, 0x4EBA, 0x7269, 0x7684, 0x88DD, 0x675F, 0x63DB, 0x6210]"

definition posePrefix :: jsstring where
  "posePrefix = [0x628A, 0x5716, 0x4E2D, 0x4EBA, 0x7269, 0x7684, 0x59FF, 0x52E2, 0x002F,
     0x52D5, 0x614B, 0x63DB, 0x6210]"

definition expressionPrefix :: jsstring where
  "expressionPrefix = [0x628A, 0x5716, 0x4E2D, 0x4EBA, 0x7269, 0x7684, 0x8868, 0x60C5, 0x63DB, 0x6210]"

definition backgroundPrefix :: jsstring where
  "backgroundPrefix = [0x628A, 0x7167, 0x7247, 0x80CC, 0x666F, 0x63DB, 0x6210]"

definition cameraPrefix :: jsstring where
  "cameraPrefix = [0x628A, 0x5716, 0x4E2D, 0x93E1, 0x982D, 0x89D2, 0x5EA6, 0x63DB, 0x6210]"

definition genericPrefix :: jsstring where
  "genericPrefix = [0x5C07, 0x5716, 0x4E2D, 0x5167, 0x5BB9, 0x4FEE, 0x6539, 0x70BA, 0x4EE5,
     0x4E0B, 0x63CF, 0x8FF0, 0xFF1A]"

text \<open>The full-width period U+3002 that joins the descriptions.\<close>

definition fullWidthPeriod :: jsstring where
  "fullWidthPeriod = [0x3002]"

text \<open>
  \<open>if (selected && field) descriptionParts.push(field)\<close>: the field is pushed when the
  option is selected and the field is truthy, that is a non-empty string.
\<close>

definition pushIf :: "bool \<Rightarrow> jsstring option \<Rightarrow> jsstring list \<Rightarrow> jsstring list" where
  "pushIf selected field descriptionParts =
     (case field of
        None \<Rightarrow> descriptionParts
      | Some d \<Rightarrow> if selected \<and> d \<noteq> [] then descriptionParts @ [d] else descriptionParts)"

definition standardOptions :: "AnalysisOption list" where
  "standardOptions = [CHARACTER_ATTIRE, CHARACTER_POSE, CHARACTER_EXPRESSION,
     PHOTO_BACKGROUND, CAMERA_ANGLE]"

definition generateFullRefinePrompt ::
  "ImageAnalysisResult option \<Rightarrow> AnalysisOption list \<Rightarrow> jsstring" where
  "generateFullRefinePrompt analysisData options =
     (case analysisData of
        None \<Rightarrow> []
      | Some data \<Rightarrow>
          let isSingleOptionSelected = (length options = 1 \<and> options ! 0 \<noteq> OTHER);
              isOtherSelectedAlone = (length options = 1 \<and> options ! 0 = OTHER);
              isNoOptionSelected = (length options = 0);
              (prefix, descriptionParts) =
                (if isSingleOptionSelected then
                   (case options ! 0 of
                      CHARACTER_ATTIRE \<Rightarrow> (attirePrefix, pushIf True (characterAttire data) [])
                    | CHARACTER_POSE \<Rightarrow> (posePrefix, pushIf True (characterPose data) [])
                    | CHARACTER_EXPRESSION \<Rightarrow>
                        (expressionPrefix, pushIf True (characterExpression data) [])
                    | PHOTO_BACKGROUND \<Rightarrow>
                        (backgroundPrefix, pushIf True (photoBackground data) [])
                    | CAMERA_ANGLE \<Rightarrow> (cameraPrefix, pushIf True (cameraAngle data) [])
                    | OTHER \<Rightarrow> (genericPrefix, []))
                 else if isOtherSelectedAlone then
                   (genericPrefix, pushIf True (otherAnalysis data) [])
                 else
                   let optionsToConsider =
                         (if isNoOptionSelected then standardOptions else options);
                       p1 = pushIf (CHARACTER_ATTIRE \<in> set optionsToConsider)
                              (characterAttire data) [];
                       p2 = pushIf (CHARACTER_POSE \<in> set optionsToConsider)
                              (characterPose data) p1;
                       p3 = pushIf (CHARACTER_EXPRESSION \<in> set optionsToConsider)
                              (characterExpression data) p2;
                       p4 = pushIf (PHOTO_BACKGROUND \<in> set optionsToConsider)
                              (photoBackground data) p3;
                       p5 = pushIf (CAMERA_ANGLE \<in> set optionsToConsider)
                              (cameraAngle data) p4;
                       p6 = pushIf (OTHER \<in> set optionsToConsider) (otherAnalysis data) p5
                   in (genericPrefix, p6));
              combinedDescription =
                arrayJoin fullWidthPeriod (filter (\<lambda>part. part \<noteq> []) descriptionParts)
          in prefix @ [0x20] @ trim combinedDescription)"

subsection \<open>The formatter as the specification words it\<close>

definition attributeOrder :: "AnalysisOption list" where
  "attributeOrder = [CHARACTER_ATTIRE, CHARACTER_POSE, CHARACTER_EXPRESSION,
     PHOTO_BACKGROUND, CAMERA_ANGLE, OTHER]"

fun descriptionOf :: "ImageAnalysisResult \<Rightarrow> AnalysisOption \<Rightarrow> jsstring option" where
  "descriptionOf r CHARACTER_ATTIRE = characterAttire r"
| "descriptionOf r CHARACTER_POSE = characterPose r"
| "descriptionOf r CHARACTER_EXPRESSION = characterExpression r"
| "descriptionOf r PHOTO_BACKGROUND = photoBackground r"
| "descriptionOf r CAMERA_ANGLE = cameraAngle r"
| "descriptionOf r OTHER = otherAnalysis r"

fun instructionPhrase :: "AnalysisOption \<Rightarrow> jsstring" where
  "instructionPhrase CHARACTER_ATTIRE = attirePrefix"
| "instructionPhrase CHARACTER_POSE = posePrefix"
| "instructionPhrase CHARACTER_EXPRESSION = expressionPrefix"
| "instructionPhrase PHOTO_BACKGROUND = backgroundPrefix"
| "instructionPhrase CAMERA_ANGLE = cameraPrefix"
| "instructionPhrase OTHER = genericPrefix"

text \<open>A description is present when the field is there and not the empty string.\<close>

definition present :: "jsstring option \<Rightarrow> bool" where
  "present field = (field \<noteq> None \<and> field \<noteq> Some [])"

definition treatedAsSelected :: "AnalysisOption list \<Rightarrow> AnalysisOption \<Rightarrow> bool" where
  "treatedAsSelected options a =
     (if options = [] then a \<in> set standardOptions else a \<in> set options)"

definition applicableDescriptions ::
  "ImageAnalysisResult \<Rightarrow> AnalysisOption list \<Rightarrow> jsstring list" where
  "applicableDescriptions r options =
     map (\<lambda>a. the (descriptionOf r a))
       (filter (\<lambda>a. treatedAsSelected options a \<and> present (descriptionOf r a)) attributeOrder)"

text \<open>What one conditional push contributes to the array of descriptions.\<close>

definition segment :: "bool \<Rightarrow> jsstring option \<Rightarrow> jsstring list" where
  "segment c field = (if c \<and> present field then [the field] else [])"

section \<open>The content state and the tabs (types.ts)\<close>

record TabContentState =
  uploadedImage :: "jsstring option"
  selectedOptions :: "AnalysisOption list"
  rawAnalysisResult :: "ImageAnalysisResult option"
  isLoading :: bool
  error :: "jsstring option"
  otherAnalysisText :: jsstring

text \<open>The field \<open>id\<close> of a tab is \<open>tab_id\<close> here, \<open>id\<close> being the identity of HOL.\<close>

record Tab =
  tab_id :: jsstring
  name :: jsstring
  contentState :: TabContentState

text \<open>
  A \<open>Partial<TabContentState>\<close> object is the list of its own keys with their values,
  in the order of the object literal. The spread \<open>{ ...contentState, ...newState }\<close>
  assigns them one after the other to a copy of the content state.
\<close>

datatype ContentField =
  UploadedImage "jsstring option"
| SelectedOptions "AnalysisOption list"
| RawAnalysisResult "ImageAnalysisResult option"
| IsLoading bool
| Error "jsstring option"
| OtherAnalysisText jsstring

fun assignField :: "ContentField \<Rightarrow> TabContentState \<Rightarrow> TabContentState" where
  "assignField (UploadedImage v) cs = cs\<lparr>uploadedImage := v\<rparr>"
| "assignField (SelectedOptions v) cs = cs\<lparr>selectedOptions := v\<rparr>"
| "assignField (RawAnalysisResult v) cs = cs\<lparr>rawAnalysisResult := v\<rparr>"
| "assignField (IsLoading v) cs = cs\<lparr>isLoading := v\<rparr>"
| "assignField (Error v) cs = cs\<lparr>error := v\<rparr>"
| "assignField (OtherAnalysisText v) cs = cs\<lparr>otherAnalysisText := v\<rparr>"

definition spread :: "TabContentState \<Rightarrow> ContentField list \<Rightarrow> TabContentState" where
  "spread cs newState = fold assignField newState cs"

section \<open>App.tsx: the session store\<close>

text \<open>
  The two \<open>useState\<close> cells of \<open>App\<close>. An event handler is modelled as a function from
  the state to the state after the updates it queues have been applied. The updater
  functions of \<open>addTab\<close>, \<open>renameTab\<close>, \<open>reorderTabs\<close> and \<open>onTabContentStateChange\<close> only
  compute the next list from the list before, so each is applied to the list it finds.
  The handlers are created again at each render, so the values they close over
  (\<open>activeTabId\<close>, \<open>tabs.length\<close>) are those of the state the event finds.
  \<open>generateUniqueId\<close> reads the clock and a random number: its result is the parameter
  \<open>uid\<close> of the operations that may call it.
\<close>

record AppState =
  tabs :: "Tab list"
  activeTabId :: jsstring

definition initialAppState :: AppState where
  "initialAppState = \<lparr>tabs = [], activeTabId = []\<rparr>"

definition initialContentState :: TabContentState where
  "initialContentState =
     \<lparr>uploadedImage = None, selectedOptions = [], rawAnalysisResult = None,
      isLoading = False, error = None, otherAnalysisText = []\<rparr>"

definition createNewTab :: "jsstring \<Rightarrow> jsstring option \<Rightarrow> jsstring \<Rightarrow> Tab" where
  "createNewTab newName idArg uid =
     \<lparr>tab_id = (case idArg of None \<Rightarrow> uid | Some i \<Rightarrow> if i \<noteq> [] then i else uid),
      name = newName,
      contentState = initialContentState\<rparr>"

text \<open>The decimal digits of a number, as a template literal prints it.\<close>

fun toDecimal :: "nat \<Rightarrow> jsstring" where
  "toDecimal n =
     (if n < 10 then [of_nat (48 + n)]
      else toDecimal (n div 10) @ [of_nat (48 + n mod 10)])"

definition tabLabel :: jsstring where
  "tabLabel = [0x9801, 0x7C64, 0x0020]"

text \<open>\<open>tabsLength\<close> is the \<open>tabs.length\<close> that the callback closed over.\<close>

definition addTab :: "nat \<Rightarrow> jsstring \<Rightarrow> AppState \<Rightarrow> AppState" where
  "addTab tabsLength uid s =
     (let newTab = createNewTab (tabLabel @ toDecimal (tabsLength + 1)) None uid
      in s\<lparr>tabs := tabs s @ [newTab], activeTabId := tab_id newTab\<rparr>)"

text \<open>The effect that runs once on mount.\<close>

definition mountEffect :: "jsstring \<Rightarrow> AppState \<Rightarrow> AppState" where
  "mountEffect uid s = (if length (tabs s) = 0 then addTab (length (tabs s)) uid s else s)"

definition renameTab :: "jsstring \<Rightarrow> jsstring \<Rightarrow> AppState \<Rightarrow> AppState" where
  "renameTab tid newName s =
     s\<lparr>tabs := map (\<lambda>tab. if tab_id tab = tid then tab\<lparr>name := newName\<rparr> else tab) (tabs s)\<rparr>"

text \<open>
  \<open>deleteTab\<close>. The updater it passes to \<open>setTabs\<close> is not a pure function: it calls
  \<open>setActiveTabId\<close>, or \<open>addTab()\<close>, which calls \<open>setTabs\<close> and \<open>setActiveTabId\<close> in turn.
  React asks updater functions to be pure and does not say what a \<open>setTabs\<close> call made
  from inside one does, so the source fixes no order between the list the updater returns
  and the list the updater of \<open>addTab\<close> returns. The parameter \<open>run\<close> is what the runtime
  does with the updater:
  \<^item> \<open>DuringRender\<close>: other updates are pending, the updater runs while \<open>App\<close> renders;
    the updater of \<open>addTab\<close> is queued behind it and runs on the list it returned.
  \<^item> \<open>EagerNestedFirst\<close> (React 18 and 19 when no update is pending): the updater runs at
    once in the event handler, before its own update is queued. The update of \<open>addTab\<close> is
    computed on the list of the last render and queued first; the list the outer updater
    returned is queued behind it and is the list after the event.
  \<^item> \<open>EagerOuterFirst\<close> (React 17 when no update is pending): the update is queued, then
    the updater runs at once. The update of \<open>addTab\<close> is computed on the list of the last
    render and queued behind; its list is the list after the event.
  The call of \<open>setActiveTabId\<close> sets another cell to a value and lands in every case.
\<close>

datatype UpdaterRun = DuringRender | EagerNestedFirst | EagerOuterFirst

definition deleteTab :: "UpdaterRun \<Rightarrow> jsstring \<Rightarrow> jsstring \<Rightarrow> AppState \<Rightarrow> AppState" where
  "deleteTab run tid uid s =
     (let filteredTabs = filter (\<lambda>tab. tab_id tab \<noteq> tid) (tabs s);
          s' = s\<lparr>tabs := filteredTabs\<rparr>
      in if tid = activeTabId s \<and> length filteredTabs > 0
         then s'\<lparr>activeTabId := tab_id (filteredTabs ! 0)\<rparr>
         else if length filteredTabs = 0 then
           (case run of
              DuringRender \<Rightarrow> addTab (length (tabs s)) uid s'
            | EagerNestedFirst \<Rightarrow> (addTab (length (tabs s)) uid s)\<lparr>tabs := filteredTabs\<rparr>
            | EagerOuterFirst \<Rightarrow> addTab (length (tabs s)) uid s)
         else s')"

text \<open>
  \<open>Array.prototype.splice\<close> with an integer start: a negative start counts from the
  end, and the start is clamped to the array. The result is the removed elements and
  the array after the call.
\<close>

definition relativeStart :: "int \<Rightarrow> nat \<Rightarrow> nat" where
  "relativeStart start len =
     (if start < 0 then nat (max (int len + start) 0) else min (nat start) len)"

definition splice :: "'a list \<Rightarrow> int \<Rightarrow> nat \<Rightarrow> 'a list \<Rightarrow> 'a list \<times> 'a list" where
  "splice xs start deleteCount items =
     (let actualStart = relativeStart start (length xs);
          actualDeleteCount = min deleteCount (length xs - actualStart)
      in (take actualDeleteCount (drop actualStart xs),
          take actualStart xs @ items @ drop (actualStart + actualDeleteCount) xs))"

text \<open>
  \<open>reorderTabs\<close>: when the first splice removes nothing, \<open>removed\<close> is \<open>undefined\<close> and
  the second splice stores it in the array, which is then no list of tabs: \<open>None\<close>.
\<close>

definition reorderTabs :: "int \<Rightarrow> int \<Rightarrow> AppState \<Rightarrow> AppState option" where
  "reorderTabs startIndex endIndex s =
     (case splice (tabs s) startIndex 1 [] of
        ([], result) \<Rightarrow> None
      | (removed # _, result) \<Rightarrow>
          Some (s\<lparr>tabs := snd (splice result endIndex 0 [removed])\<rparr>))"

definition onTabContentStateChange ::
  "jsstring \<Rightarrow> ContentField list \<Rightarrow> AppState \<Rightarrow> AppState" where
  "onTabContentStateChange tid newState s =
     s\<lparr>tabs := map (\<lambda>tab. if tab_id tab = tid
                           then tab\<lparr>contentState := spread (contentState tab) newState\<rparr>
                           else tab) (tabs s)\<rparr>"

text \<open>
  A sequence of create and delete operations of the store, each delete with the way the
  runtime runs its updater.
\<close>

datatype StoreOp = Create jsstring | Delete UpdaterRun jsstring jsstring

fun applyOp :: "StoreOp \<Rightarrow> AppState \<Rightarrow> AppState" where
  "applyOp (Create uid) s = addTab (length (tabs s)) uid s"
| "applyOp (Delete run tid uid) s = deleteTab run tid uid s"

definition applyOps :: "StoreOp list \<Rightarrow> AppState \<Rightarrow> AppState" where
  "applyOps ops s = fold applyOp ops s"

text \<open>An operation after which the list of the nested \<open>addTab\<close> is not overwritten.\<close>

fun replacementKept :: "StoreOp \<Rightarrow> bool" where
  "replacementKept (Create uid) = True"
| "replacementKept (Delete run tid uid) = (run \<noteq> EagerNestedFirst)"

section \<open>DraggableTab: the rename box of a tab\<close>

record DraggableTabState =
  isEditing :: bool
  newTabName :: jsstring

text \<open>\<open>tid\<close> and \<open>tabName\<close> are the props of the tab; \<open>onRename\<close> is \<open>renameTab\<close>.\<close>

definition handleRenameSubmit ::
  "jsstring \<Rightarrow> jsstring \<Rightarrow> DraggableTabState \<Rightarrow> AppState \<Rightarrow> DraggableTabState \<times> AppState" where
  "handleRenameSubmit tid tabName local s =
     (local\<lparr>isEditing := False\<rparr>,
      if trim (newTabName local) \<noteq> [] \<and> newTabName local \<noteq> tabName
      then renameTab tid (trim (newTabName local)) s
      else s)"

section \<open>TabContent.tsx: the session panel\<close>

text \<open>
  The panel of tab \<open>tid\<close> is rendered from \<open>cs\<close>, the content state of the tab at that
  render; \<open>onContentStateChange\<close> is the store's \<open>onTabContentStateChange\<close>.
\<close>

definition errNoImage :: jsstring where
  "errNoImage = [0x8ACB, 0x5148, 0x4E0A, 0x50B3, 0x5716, 0x7247, 0x3002]"

definition errOtherNeedsText :: jsstring where
  "errOtherNeedsText = [0x7576, 0x9078, 0x64C7, 0x300C, 0x5176, 0x4ED6, 0x300D, 0x6642,
     0xFF0C, 0x8ACB, 0x8F38, 0x5165, 0x8981, 0x5206, 0x6790, 0x7684, 0x7279, 0x5B9A,
     0x5167, 0x5BB9, 0x3002]"

definition errAnalyze :: jsstring where
  "errAnalyze = [0x5206, 0x6790, 0x5716, 0x7247, 0x6642, 0x767C, 0x751F, 0x932F, 0x8AA4, 0x3002]"

definition handleImageUpload :: "jsstring \<Rightarrow> jsstring \<Rightarrow> AppState \<Rightarrow> AppState" where
  "handleImageUpload tid base64Image s =
     onTabContentStateChange tid
       [UploadedImage (Some base64Image), RawAnalysisResult None, Error None] s"

definition handleSetError :: "jsstring \<Rightarrow> jsstring option \<Rightarrow> AppState \<Rightarrow> AppState" where
  "handleSetError tid errorMessage s = onTabContentStateChange tid [Error errorMessage] s"

definition handleDeleteImage :: "jsstring \<Rightarrow> AppState \<Rightarrow> AppState" where
  "handleDeleteImage tid s =
     onTabContentStateChange tid [UploadedImage None, RawAnalysisResult None, Error None] s"

text \<open>
  The analysis client \<open>analyzeImage\<close> is the external service: a function from the
  arguments of the call to what the promise settles with, a result or the \<open>message\<close> of
  the error thrown (\<open>None\<close> when the error has none).
\<close>

record AnalyzeCall =
  callImage :: jsstring
  callOptions :: "AnalysisOption list"
  callOtherText :: jsstring
  callDetailed :: bool

datatype AnalyzeOutcome = Resolved ImageAnalysisResult | Rejected "jsstring option"

text \<open>
  \<open>e.message || fallback\<close>: the fallback stands in for a missing or empty message.
\<close>

definition messageOr :: "jsstring option \<Rightarrow> jsstring \<Rightarrow> jsstring" where
  "messageOr message fallback =
     (case message of None \<Rightarrow> fallback | Some m \<Rightarrow> if m \<noteq> [] then m else fallback)"

text \<open>
  \<open>handleAnalyze\<close> returns the state after its updates and the calls it made to the
  analysis client.
\<close>

definition handleAnalyze ::
  "jsstring \<Rightarrow> TabContentState \<Rightarrow> (AnalyzeCall \<Rightarrow> AnalyzeOutcome) \<Rightarrow> bool \<Rightarrow> AppState
     \<Rightarrow> AppState \<times> AnalyzeCall list" where
  "handleAnalyze tid cs analyzeImage isDetailedRequest s =
     (case uploadedImage cs of
        None \<Rightarrow> (onTabContentStateChange tid [Error (Some errNoImage)] s, [])
      | Some img \<Rightarrow>
          if img = [] then (onTabContentStateChange tid [Error (Some errNoImage)] s, [])
          else if OTHER \<in> set (selectedOptions cs) \<and> trim (otherAnalysisText cs) = []
          then (onTabContentStateChange tid [Error (Some errOtherNeedsText)] s, [])
          else
            let s1 = onTabContentStateChange tid
                       [IsLoading True, Error None, RawAnalysisResult None] s;
                call = \<lparr>callImage = img, callOptions = selectedOptions cs,
                         callOtherText = otherAnalysisText cs,
                         callDetailed = isDetailedRequest\<rparr>;
                s2 = (case analyzeImage call of
                        Resolved result \<Rightarrow>
                          onTabContentStateChange tid
                            [RawAnalysisResult (Some result), Error None] s1
                      | Rejected message \<Rightarrow>
                          onTabContentStateChange tid
                            [Error (Some (messageOr message errAnalyze))] s1)
            in (onTabContentStateChange tid [IsLoading False] s2, [call]))"

definition handleRefineDetailRequest ::
  "jsstring \<Rightarrow> TabContentState \<Rightarrow> (AnalyzeCall \<Rightarrow> AnalyzeOutcome) \<Rightarrow> AppState
     \<Rightarrow> AppState \<times> AnalyzeCall list" where
  "handleRefineDetailRequest tid cs analyzeImage s = handleAnalyze tid cs analyzeImage True s"

section \<open>ImageUploader: the image intake\<close>

text \<open>
  The uploader of tab \<open>tid\<close> gets \<open>imagePreview = uploadedImage cs\<close> and
  \<open>isLoading = isLoading cs\<close> as props, \<open>onImageUpload = handleImageUpload\<close>,
  \<open>onSetError = handleSetError\<close> and \<open>onDeleteImage = handleDeleteImage\<close>. Its own state
  is kept but for \<open>fileInputKey\<close>, a time stamp that only remounts the file input.
\<close>

record UploaderState =
  isProcessingPaste :: bool
  urlInput :: jsstring
  isUrlLoading :: bool
  showCropper :: bool
  imageToCropUrl :: "jsstring option"

text \<open>What a \<open>FileReader\<close> gives for a file: a data URL, a result that is no string, or an error.\<close>

datatype FileRead = DataUrl jsstring | NotAString | ReadError

definition errReadBase64 :: jsstring where
  "errReadBase64 = [0x6A94, 0x6848, 0x8B80, 0x53D6, 0x5931, 0x6557, 0xFF0C, 0x7121, 0x6CD5,
     0x8F49, 0x63DB, 0x70BA, 0x0020, 0x0042, 0x0061, 0x0073, 0x0065, 0x0036, 0x0034, 0x3002]"

definition errRead :: jsstring where
  "errRead = [0x6A94, 0x6848, 0x8B80, 0x53D6, 0x5931, 0x6557, 0x3002]"

text \<open>\<open>processFile\<close>: \<open>Inl\<close> is the message the promise rejects with.\<close>

definition processFile :: "jsstring \<Rightarrow> FileRead \<Rightarrow> AppState \<Rightarrow> (jsstring + unit) \<times> AppState" where
  "processFile tid file s =
     (let s1 = handleSetError tid None s
      in case file of
           DataUrl result \<Rightarrow> (Inr (), handleImageUpload tid result s1)
         | NotAString \<Rightarrow> (Inl errReadBase64, s1)
         | ReadError \<Rightarrow> (Inl errRead, s1))"

text \<open>What \<open>fetch\<close> gives for a URL: an error thrown, or a response.\<close>

record FetchResponse =
  ok :: bool
  status :: nat
  statusText :: jsstring
  contentType :: "jsstring option"
  blob :: FileRead

datatype FetchResult = FetchThrows "jsstring" | FetchResponds FetchResponse

definition errLoadPrefix :: jsstring where
  "errLoadPrefix = [0x8F09, 0x5165, 0x5716, 0x7247, 0x5931, 0x6557, 0x003A, 0x0020]"

definition errStatusPrefix :: jsstring where
  "errStatusPrefix = [0x7121, 0x6CD5, 0x5F9E, 0x0020, 0x0055, 0x0052, 0x004C, 0x0020,
     0x8F09, 0x5165, 0x5716, 0x7247, 0xFF1A]"

definition networkErrorText :: jsstring where
  "networkErrorText = [0x7DB2, 0x8DEF, 0x932F, 0x8AA4]"

definition errNotAnImage :: jsstring where
  "errNotAnImage = [0x0055, 0x0052, 0x004C, 0x0020, 0x6307, 0x5411, 0x7684, 0x4E0D, 0x662F,
     0x4E00, 0x500B, 0x6709, 0x6548, 0x7684, 0x5716, 0x7247, 0x6A94, 0x6848, 0x3002]"

definition startsWith :: "jsstring \<Rightarrow> jsstring \<Rightarrow> bool" where
  "startsWith s p = (take (length p) s = p)"

definition fetchImageFromUrl ::
  "jsstring \<Rightarrow> (jsstring \<Rightarrow> FetchResult) \<Rightarrow> jsstring \<Rightarrow> UploaderState \<Rightarrow> AppState
     \<Rightarrow> (jsstring + unit) \<times> UploaderState \<times> AppState" where
  "fetchImageFromUrl tid fetch url local s =
     (let s1 = handleSetError tid None s;
          wrap = (\<lambda>message. errLoadPrefix @ message @ js ''.'');
          (outcome, local1, s2) =
            (case fetch url of
               FetchThrows message \<Rightarrow> (Inl (wrap message), local, s1)
             | FetchResponds response \<Rightarrow>
                 if \<not> ok response then
                   (Inl (wrap (errStatusPrefix @ toDecimal (status response) @ js '' '' @
                       (if statusText response \<noteq> [] then statusText response
                        else networkErrorText))), local, s1)
                 else if (case contentType response of
                            None \<Rightarrow> True
                          | Some ct \<Rightarrow> ct = [] \<or> \<not> startsWith ct (js ''image/''))
                 then (Inl (wrap errNotAnImage), local, s1)
                 else
                   (case processFile tid (blob response) s1 of
                      (Inl message, s') \<Rightarrow> (Inl (wrap message), local, s')
                    | (Inr u, s') \<Rightarrow> (Inr (), local\<lparr>urlInput := []\<rparr>, s')))
      in (outcome, local1\<lparr>isUrlLoading := False\<rparr>, s2))"

definition errImageAlreadyThere :: jsstring where
  "errImageAlreadyThere = [0x5DF2, 0x6709, 0x5716, 0x7247, 0x4E0A, 0x50B3, 0xFF0C, 0x8ACB,
     0x5148, 0x522A, 0x9664, 0x73FE, 0x6709, 0x5716, 0x7247, 0x518D, 0x8CBC, 0x4E0A, 0x65B0,
     0x5716, 0x7247, 0x3002]"

definition errNoClipboardFile :: jsstring where
  "errNoClipboardFile = [0x7121, 0x6CD5, 0x5F9E, 0x526A, 0x8CBC, 0x7C3F, 0x7372, 0x53D6,
     0x5716, 0x7247, 0x6A94, 0x6848, 0x3002]"

definition errNothingToPaste :: jsstring where
  "errNothingToPaste = [0x526A, 0x8CBC, 0x7C3F, 0x4E2D, 0x6C92, 0x6709, 0x5075, 0x6E2C,
     0x5230, 0x5716, 0x7247, 0x6A94, 0x6848, 0x6216, 0x6709, 0x6548, 0x5716, 0x7247, 0x0055,
     0x0052, 0x004C, 0x3002]"

definition errPasteUnknown :: jsstring where
  "errPasteUnknown = [0x8CBC, 0x4E0A, 0x6642, 0x767C, 0x751F, 0x672A, 0x77E5, 0x932F, 0x8AA4, 0x3002]"

text \<open>
  The clipboard of a paste event: its plain text, and the first item that is an image
  file, if any, with what \<open>getAsFile\<close> gives for it (\<open>None\<close> for \<open>null\<close>).
\<close>

record ClipboardData =
  clipboardText :: jsstring
  imageFileItem :: "FileRead option option"

text \<open>
  \<open>handlePaste\<close>. \<open>isValidImageUrl\<close> rests on the URL parser of the browser and
  \<open>fetch\<close> on the network: both are parameters.
\<close>

definition handlePaste ::
  "jsstring \<Rightarrow> TabContentState \<Rightarrow> (jsstring \<Rightarrow> bool) \<Rightarrow> (jsstring \<Rightarrow> FetchResult)
     \<Rightarrow> ClipboardData \<Rightarrow> UploaderState \<Rightarrow> AppState \<Rightarrow> UploaderState \<times> AppState" where
  "handlePaste tid cs isValidImageUrl fetch clipboardData local s =
     (let imagePreview = uploadedImage cs;
          imagePreviewTruthy = (case imagePreview of None \<Rightarrow> False | Some p \<Rightarrow> p \<noteq> []);
          currentLoading = (isLoading cs \<or> isProcessingPaste local \<or> isUrlLoading local);
          s1 = handleSetError tid None s
      in if currentLoading \<or> imagePreviewTruthy then
           (if imagePreviewTruthy
            then (local, handleSetError tid (Some errImageAlreadyThere) s1)
            else (local, s1))
         else
           let local1 = local\<lparr>isProcessingPaste := True\<rparr>;
               (outcome, local2, s2) =
                 (case imageFileItem clipboardData of
                    Some item \<Rightarrow>
                      (case item of
                         Some file \<Rightarrow>
                           (case processFile tid file s1 of (r, s') \<Rightarrow> (r, local1, s'))
                       | None \<Rightarrow> (Inl errNoClipboardFile, local1, s1))
                  | None \<Rightarrow>
                      if clipboardText clipboardData \<noteq> []
                         \<and> isValidImageUrl (clipboardText clipboardData)
                      then fetchImageFromUrl tid fetch (clipboardText clipboardData) local1 s1
                      else (Inr (), local1, handleSetError tid (Some errNothingToPaste) s1));
               s3 = (case outcome of
                       Inl message \<Rightarrow>
                         handleSetError tid (Some (messageOr (Some message) errPasteUnknown)) s2
                     | Inr u \<Rightarrow> s2)
           in (local2\<lparr>isProcessingPaste := False\<rparr>, s3))"

definition handleCropComplete ::
  "jsstring \<Rightarrow> jsstring \<Rightarrow> UploaderState \<Rightarrow> AppState \<Rightarrow> UploaderState \<times> AppState" where
  "handleCropComplete tid croppedImageBase64 local s =
     (local\<lparr>showCropper := False, imageToCropUrl := None\<rparr>,
      handleImageUpload tid croppedImageBase64 s)"

definition handleDeleteImageAndResetInput ::
  "jsstring \<Rightarrow> UploaderState \<Rightarrow> AppState \<Rightarrow> UploaderState \<times> AppState" where
  "handleDeleteImageAndResetInput tid local s =
     (local\<lparr>showCropper := False, imageToCropUrl := None\<rparr>, handleDeleteImage tid s)"

section \<open>types.ts: encode and decode\<close>

text \<open>
  \<open>btoa\<close> and \<open>atob\<close> are functions of the browser. They are modelled after the HTML
  standard: \<open>btoa\<close> throws when a code unit of its argument is above U+00FF and
  otherwise is the base64 encoding (RFC 4648, with padding) of the bytes that the code
  units are; \<open>atob\<close> is the forgiving-base64 decode of the Infra standard, and throws
  where that fails.
\<close>

datatype DOMException = InvalidCharacterError

definition base64Alphabet :: jsstring where
  "base64Alphabet = js ''ABCDEFGHIJKLMNOPQRSTUVWXYZabcdefghijklmnopqrstuvwxyz0123456789+/''"

definition base64Char :: "nat \<Rightarrow> 16 word" where
  "base64Char n = base64Alphabet ! n"

text \<open>
  Three bytes are one group of 24 bits, read as four numbers of six bits. A last group of
  one byte gives two characters and \<open>==\<close>, a last group of two bytes three characters
  and \<open>=\<close>, the missing bits being zero.
\<close>

fun base64Encode :: "8 word list \<Rightarrow> jsstring" where
  "base64Encode [] = []"
| "base64Encode [a] =
     (let n = unat a * 65536
      in [base64Char (n div 262144), base64Char (n div 4096 mod 64), 0x3D, 0x3D])"
| "base64Encode [a, b] =
     (let n = unat a * 65536 + unat b * 256
      in [base64Char (n div 262144), base64Char (n div 4096 mod 64),
          base64Char (n div 64 mod 64), 0x3D])"
| "base64Encode (a # b # c # rest) =
     (let n = unat a * 65536 + unat b * 256 + unat c
      in [base64Char (n div 262144), base64Char (n div 4096 mod 64),
          base64Char (n div 64 mod 64), base64Char (n mod 64)] @ base64Encode rest)"

definition btoa :: "jsstring \<Rightarrow> DOMException + jsstring" where
  "btoa data =
     (if list_ex (\<lambda>c. c > 0xFF) data then Inl InvalidCharacterError
      else Inr (base64Encode (map ucast data)))"

definition isAsciiWhitespace :: "16 word \<Rightarrow> bool" where
  "isAsciiWhitespace c = (c \<in> set [0x09, 0x0A, 0x0C, 0x0D, 0x20])"

text \<open>The number of a character is its place in the alphabet.\<close>

definition base64Index :: "16 word \<Rightarrow> nat" where
  "base64Index c = length (takeWhile (\<lambda>x. x \<noteq> c) base64Alphabet)"

text \<open>If the data ends with one or two \<open>=\<close>, they are removed.\<close>

definition removePadding :: "jsstring \<Rightarrow> jsstring" where
  "removePadding data =
     (if length data \<ge> 2 \<and> drop (length data - 2) data = [0x3D, 0x3D]
      then take (length data - 2) data
      else if length data \<ge> 1 \<and> drop (length data - 1) data = [0x3D]
      then take (length data - 1) data
      else data)"

text \<open>
  Four numbers of six bits are three bytes. What is left at the end is 12 bits, of which
  the last four are dropped, or 18 bits, of which the last two are dropped. One number
  alone cannot be left: the length check refuses it before.
\<close>

fun decodeSextets :: "nat list \<Rightarrow> 8 word list" where
  "decodeSextets [] = []"
| "decodeSextets [s1] = []"
| "decodeSextets [s1, s2] = (let n = s1 * 64 + s2 in [of_nat (n div 16)])"
| "decodeSextets [s1, s2, s3] =
     (let n = (s1 * 4096 + s2 * 64 + s3) div 4 in [of_nat (n div 256), of_nat (n mod 256)])"
| "decodeSextets (s1 # s2 # s3 # s4 # rest) =
     (let n = s1 * 262144 + s2 * 4096 + s3 * 64 + s4
      in [of_nat (n div 65536), of_nat (n div 256 mod 256), of_nat (n mod 256)]
         @ decodeSextets rest)"

definition forgivingBase64Decode :: "jsstring \<Rightarrow> 8 word list option" where
  "forgivingBase64Decode data =
     (let data1 = filter (\<lambda>c. \<not> isAsciiWhitespace c) data;
          data2 = (if length data1 mod 4 = 0 then removePadding data1 else data1)
      in if length data2 mod 4 = 1 then None
         else if list_ex (\<lambda>c. c \<notin> set base64Alphabet) data2 then None
         else Some (decodeSextets (map base64Index data2)))"

definition atob :: "jsstring \<Rightarrow> DOMException + jsstring" where
  "atob data =
     (case forgivingBase64Decode data of
        None \<Rightarrow> Inl InvalidCharacterError
      | Some bytes \<Rightarrow> Inr (map ucast bytes))"

text \<open>
  \<open>decode\<close>: the loop stores \<open>charCodeAt(i)\<close> at index \<open>i\<close> of a \<open>Uint8Array\<close> of the
  length of the string, which starts with zeros and keeps the low eight bits of what is
  stored.
\<close>

function decodeLoop :: "jsstring \<Rightarrow> nat \<Rightarrow> 8 word list \<Rightarrow> 8 word list" where
  "decodeLoop binaryString i bytes =
     (if i < length binaryString
      then decodeLoop binaryString (i + 1) (bytes[i := ucast (binaryString ! i)])
      else bytes)"
  by pat_completeness auto

termination
  by (relation "measure (\<lambda>(binaryString, i, bytes). length binaryString - i)") auto

definition decode :: "jsstring \<Rightarrow> DOMException + 8 word list" where
  "decode base64 =
     (case atob base64 of
        Inl e \<Rightarrow> Inl e
      | Inr binaryString \<Rightarrow>
          Inr (decodeLoop binaryString 0 (replicate (length binaryString) 0)))"

text \<open>\<open>encode\<close>: the loop appends \<open>String.fromCharCode(bytes[i])\<close> to the string.\<close>

function encodeLoop :: "8 word list \<Rightarrow> nat \<Rightarrow> jsstring \<Rightarrow> jsstring" where
  "encodeLoop bytes i binary =
     (if i < length bytes
      then encodeLoop bytes (i + 1) (binary @ [ucast (bytes ! i)])
      else binary)"
  by pat_completeness auto

termination
  by (relation "measure (\<lambda>(bytes, i, binary). length bytes - i)") auto

definition encode :: "8 word list \<Rightarrow> DOMException + jsstring" where
  "encode bytes = btoa (encodeLoop bytes 0 [])"

text \<open>The six-bit numbers of a byte sequence, before they become characters.\<close>

fun sextetsOf :: "8 word list \<Rightarrow> nat list" where
  "sextetsOf [] = []"
| "sextetsOf [a] = (let n = unat a * 65536 in [n div 262144, n div 4096 mod 64])"
| "sextetsOf [a, b] =
     (let n = unat a * 65536 + unat b * 256
      in [n div 262144, n div 4096 mod 64, n div 64 mod 64])"
| "sextetsOf (a # b # c # rest) =
     (let n = unat a * 65536 + unat b * 256 + unat c
      in [n div 262144, n div 4096 mod 64, n div 64 mod 64, n mod 64] @ sextetsOf rest)"

definition paddingOf :: "nat \<Rightarrow> jsstring" where
  "paddingOf len = replicate ((3 - len mod 3) mod 3) 0x3D"

section \<open>Proofs: the prompt formatter\<close>

lemma pushIf_segment: "pushIf selected field parts = parts @ segment selected field"
  by (cases field) (simp_all add: pushIf_def present_def segment_def)

lemma filter_segment: "filter (\<lambda>part. part \<noteq> []) (segment c field) = segment c field"
  by (cases field) (auto simp: present_def segment_def)

lemma map_filter_Cons:
  "map f (filter P (x # xs)) = (if P x then [f x] else []) @ map f (filter P xs)"
  by simp

lemma applicableDescriptions_segments:
  "applicableDescriptions r options =
     segment (treatedAsSelected options CHARACTER_ATTIRE) (characterAttire r) @
     segment (treatedAsSelected options CHARACTER_POSE) (characterPose r) @
     segment (treatedAsSelected options CHARACTER_EXPRESSION) (characterExpression r) @
     segment (treatedAsSelected options PHOTO_BACKGROUND) (photoBackground r) @
     segment (treatedAsSelected options CAMERA_ANGLE) (cameraAngle r) @
     segment (treatedAsSelected options OTHER) (otherAnalysis r)"
  unfolding applicableDescriptions_def attributeOrder_def segment_def
  by (simp only: map_filter_Cons descriptionOf.simps filter.simps(1) list.map(1) append_Nil2)

lemma treatedAsSelected_simps:
  "length options \<noteq> 1 \<Longrightarrow>
     (a \<in> set (if length options = 0 then standardOptions else options)) =
       treatedAsSelected options a"
  by (simp add: treatedAsSelected_def)

lemma generic_branch:
  assumes "length options \<noteq> 1"
  shows "generateFullRefinePrompt (Some r) options =
     genericPrefix @ [0x20] @ trim (arrayJoin fullWidthPeriod (applicableDescriptions r options))"
  unfolding applicableDescriptions_segments generateFullRefinePrompt_def
  using assms
  by (simp add: Let_def pushIf_segment filter_segment treatedAsSelected_simps
      del: set_simps length_0_conv)

lemma single_branch:
  assumes "a \<noteq> OTHER"
  shows "generateFullRefinePrompt (Some r) [a] =
     instructionPhrase a @ [0x20]
       @ trim (case descriptionOf r a of None \<Rightarrow> [] | Some d \<Rightarrow> d)"
  using assms
  by (cases a; cases "descriptionOf r a")
     (auto simp: generateFullRefinePrompt_def pushIf_def)

text \<open>
  C1, as the code has it. When no option or more than one option is selected, the prompt
  is the generic prefix, one space, and the descriptions that are present in the result
  and whose attribute is selected, in the order attire, pose, expression, background,
  camera angle, other, joined by the full-width period; the joined text is trimmed of
  white space at both ends. With no option selected the five standard attributes count as
  selected. A field that is absent or empty gives no segment.
\<close>

theorem generateFullRefinePrompt_joined:
  assumes "length options \<noteq> 1"
  shows "generateFullRefinePrompt (Some r) options =
     genericPrefix @ [0x20]
       @ trim (arrayJoin fullWidthPeriod (applicableDescriptions r options))"
  using assms by (rule generic_branch)

text \<open>
  The instance of the specification: no option selected, attire \<open>X\<close> and pose \<open>Y\<close>, the
  other four fields absent.
\<close>

theorem generateFullRefinePrompt_joined_witness:
  "length ([] :: AnalysisOption list) \<noteq> 1 \<and>
   generateFullRefinePrompt
     (Some \<lparr>characterAttire = Some (js ''X''), characterPose = Some (js ''Y''),
            characterExpression = None, photoBackground = None, cameraAngle = None,
            otherAnalysis = None\<rparr>) []
   = genericPrefix @ js '' '' @ js ''X'' @ fullWidthPeriod @ js ''Y''"
  using generateFullRefinePrompt_joined [of "[]"
      "\<lparr>characterAttire = Some (js ''X''), characterPose = Some (js ''Y''),
        characterExpression = None, photoBackground = None, cameraAngle = None,
        otherAnalysis = None\<rparr>"]
  by (simp add: applicableDescriptions_def attributeOrder_def treatedAsSelected_def
      standardOptions_def present_def js_def trim_def isWhiteSpace_def fullWidthPeriod_def)

text \<open>
  C1 as the specification states it, the body being the joined descriptions themselves,
  fails where a description ends in white space: for attire \<open>X\<close> and pose \<open>Y\<close> followed by
  a space the code ends the prompt after \<open>Y\<close>.
\<close>

theorem generateFullRefinePrompt_joined_counterexample:
  "applicableDescriptions
     \<lparr>characterAttire = Some (js ''X''), characterPose = Some (js ''Y ''),
      characterExpression = None, photoBackground = None, cameraAngle = None,
      otherAnalysis = None\<rparr> [] = [js ''X'', js ''Y '']
  \<and> generateFullRefinePrompt
     (Some \<lparr>characterAttire = Some (js ''X''), characterPose = Some (js ''Y ''),
            characterExpression = None, photoBackground = None, cameraAngle = None,
            otherAnalysis = None\<rparr>) []
   = genericPrefix @ js '' '' @ js ''X'' @ fullWidthPeriod @ js ''Y''
  \<and> generateFullRefinePrompt
     (Some \<lparr>characterAttire = Some (js ''X''), characterPose = Some (js ''Y ''),
            characterExpression = None, photoBackground = None, cameraAngle = None,
            otherAnalysis = None\<rparr>) []
   \<noteq> genericPrefix @ js '' '' @ arrayJoin fullWidthPeriod
        (applicableDescriptions
           \<lparr>characterAttire = Some (js ''X''), characterPose = Some (js ''Y ''),
            characterExpression = None, photoBackground = None, cameraAngle = None,
            otherAnalysis = None\<rparr> [])
  \<and> generateFullRefinePrompt
     (Some \<lparr>characterAttire = Some (js ''X''), characterPose = Some (js ''Y ''),
            characterExpression = None, photoBackground = None, cameraAngle = None,
            otherAnalysis = None\<rparr>) []
   \<noteq> genericPrefix @ arrayJoin fullWidthPeriod
        (applicableDescriptions
           \<lparr>characterAttire = Some (js ''X''), characterPose = Some (js ''Y ''),
            characterExpression = None, photoBackground = None, cameraAngle = None,
            otherAnalysis = None\<rparr> [])"
  by (simp add: generateFullRefinePrompt_def pushIf_def applicableDescriptions_def
      attributeOrder_def treatedAsSelected_def standardOptions_def present_def js_def
      trim_def isWhiteSpace_def fullWidthPeriod_def genericPrefix_def)

text \<open>
  C2, as the code has it. When exactly one option is selected and it is not \<open>OTHER\<close>, the
  prompt is the instruction phrase of that option, one space, and the description of that
  attribute trimmed of white space at both ends; nothing follows the space when the
  description is absent or empty.
\<close>

theorem generateFullRefinePrompt_single:
  assumes "a \<noteq> OTHER"
  shows "generateFullRefinePrompt (Some r) [a] =
     instructionPhrase a @ [0x20]
       @ trim (case descriptionOf r a of None \<Rightarrow> [] | Some d \<Rightarrow> d)"
  using assms by (rule single_branch)

text \<open>
  The instance of the specification: attire selected, the attire being \<open>a red coat\<close>. The
  right-hand side is the string of the specification, code unit by code unit.
\<close>

theorem generateFullRefinePrompt_single_witness:
  "CHARACTER_ATTIRE \<noteq> OTHER \<and>
   generateFullRefinePrompt
     (Some \<lparr>characterAttire = Some (js ''a red coat''), characterPose = None,
            characterExpression = None, photoBackground = None, cameraAngle = None,
            otherAnalysis = None\<rparr>) [CHARACTER_ATTIRE]
   = [0x628A, 0x5716, 0x4E2D, 0x4EBA, 0x7269, 0x7684, 0x88DD, 0x675F, 0x63DB, 0x6210,
      0x0020, 0x0061, 0x0020, 0x0072, 0x0065, 0x0064, 0x0020, 0x0063, 0x006F, 0x0061, 0x0074]"
  using generateFullRefinePrompt_single [of CHARACTER_ATTIRE
      "\<lparr>characterAttire = Some (js ''a red coat''), characterPose = None,
        characterExpression = None, photoBackground = None, cameraAngle = None,
        otherAnalysis = None\<rparr>"]
  by (simp add: js_def trim_def isWhiteSpace_def attirePrefix_def)

text \<open>
  C2 as the specification states it, the phrase followed by the description itself, fails
  where the description ends in white space: the code drops the space after \<open>a red coat\<close>.
\<close>

theorem generateFullRefinePrompt_single_counterexample:
  "generateFullRefinePrompt
     (Some \<lparr>characterAttire = Some (js ''a red coat ''), characterPose = None,
            characterExpression = None, photoBackground = None, cameraAngle = None,
            otherAnalysis = None\<rparr>) [CHARACTER_ATTIRE]
   = instructionPhrase CHARACTER_ATTIRE @ js '' '' @ js ''a red coat''
  \<and> generateFullRefinePrompt
     (Some \<lparr>characterAttire = Some (js ''a red coat ''), characterPose = None,
            characterExpression = None, photoBackground = None, cameraAngle = None,
            otherAnalysis = None\<rparr>) [CHARACTER_ATTIRE]
   \<noteq> instructionPhrase CHARACTER_ATTIRE @ js '' '' @ js ''a red coat ''
  \<and> generateFullRefinePrompt
     (Some \<lparr>characterAttire = Some (js ''a red coat ''), characterPose = None,
            characterExpression = None, photoBackground = None, cameraAngle = None,
            otherAnalysis = None\<rparr>) [CHARACTER_ATTIRE]
   \<noteq> instructionPhrase CHARACTER_ATTIRE @ js ''a red coat ''"
  by (simp add: generateFullRefinePrompt_def pushIf_def js_def trim_def isWhiteSpace_def
      attirePrefix_def)

section \<open>Proofs: the session store\<close>

declare toDecimal.simps [simp del]

lemma tabs_addTab: "tabs (addTab n uid s) \<noteq> []"
  by (simp add: addTab_def Let_def)

lemma tabs_deleteTab_kept:
  assumes "run \<noteq> EagerNestedFirst"
  shows "tabs (deleteTab run tid uid s) \<noteq> []"
  using assms by (cases run) (auto simp: deleteTab_def Let_def tabs_addTab)

lemma tabs_applyOp_kept: "replacementKept opn \<Longrightarrow> tabs (applyOp opn s) \<noteq> []"
  by (cases opn) (simp_all add: tabs_addTab tabs_deleteTab_kept)

text \<open>
  What holds of the list: it is never empty as long as no delete has its updater run
  eagerly with the nested update queued first.
\<close>

lemma tabs_applyOps_kept:
  assumes "list_all replacementKept ops" and "tabs s \<noteq> []"
  shows "tabs (applyOps ops s) \<noteq> []"
  using assms unfolding applyOps_def
proof (induction ops arbitrary: s)
  case Nil
  then show ?case by simp
next
  case (Cons opn ops)
  from Cons.prems have "tabs (applyOp opn s) \<noteq> []" by (simp add: tabs_applyOp_kept)
  with Cons.prems Cons.IH show ?case by simp
qed

lemma tabs_mountEffect: "tabs (mountEffect uid initialAppState) \<noteq> []"
  by (simp add: mountEffect_def initialAppState_def tabs_addTab)

lemma toDecimal_1: "toDecimal (Suc 0) = js ''1''"
  by (simp add: toDecimal.simps js_def)

lemma toDecimal_2: "toDecimal (Suc (Suc 0)) = js ''2''"
  by (simp add: toDecimal.simps js_def)

text \<open>
  C3, the code at the failing input. The application has mounted with its one tab \<open>a\<close>,
  which is active. The tab is deleted while no update is pending, so that React 18 runs
  the updater of \<open>deleteTab\<close> at once: the list of tabs is empty after the event, and the
  active id is that of the tab \<open>addTab\<close> made, which is not in the list.
\<close>

theorem last_tab_deleted_eagerly:
  "mountEffect (js ''a'') initialAppState
     = \<lparr>tabs = [createNewTab (tabLabel @ js ''1'') None (js ''a'')], activeTabId = js ''a''\<rparr>
   \<and> applyOps [Delete EagerNestedFirst (js ''a'') (js ''n'')]
       (mountEffect (js ''a'') initialAppState)
     = \<lparr>tabs = [], activeTabId = js ''n''\<rparr>"
  using toDecimal_1 toDecimal_2
  by (simp add: applyOps_def mountEffect_def initialAppState_def deleteTab_def addTab_def
      createNewTab_def Let_def)

text \<open>
  What holds of \<open>deleteTab\<close> in a store whose active id is the id of one of its tabs: when
  the active tab is deleted and tabs remain, the first remaining tab becomes active;
  when a tab that is not active is deleted, the active id stays; both however the updater
  is run. When the active tab is deleted and none remain, the list is the one new tab only
  if the updater runs during render.
\<close>

lemma deleteTab_cases:
  assumes "tid \<in> tab_id ` set (tabs s)" and "activeTabId s \<in> tab_id ` set (tabs s)"
  shows "(tid = activeTabId s \<and> filter (\<lambda>tab. tab_id tab \<noteq> tid) (tabs s) \<noteq> [] \<longrightarrow>
            tabs (deleteTab run tid uid s) = filter (\<lambda>tab. tab_id tab \<noteq> tid) (tabs s)
          \<and> activeTabId (deleteTab run tid uid s)
              = tab_id (filter (\<lambda>tab. tab_id tab \<noteq> tid) (tabs s) ! 0))
       \<and> (tid = activeTabId s \<and> filter (\<lambda>tab. tab_id tab \<noteq> tid) (tabs s) = [] \<longrightarrow>
            tabs (deleteTab DuringRender tid uid s)
              = [createNewTab (tabLabel @ toDecimal (length (tabs s) + 1)) None uid]
          \<and> activeTabId (deleteTab DuringRender tid uid s) = uid)
       \<and> (tid \<noteq> activeTabId s \<longrightarrow>
            tabs (deleteTab run tid uid s) = filter (\<lambda>tab. tab_id tab \<noteq> tid) (tabs s)
          \<and> activeTabId (deleteTab run tid uid s) = activeTabId s)"
proof -
  let ?remaining = "filter (\<lambda>tab. tab_id tab \<noteq> tid) (tabs s)"
  have keep: "tid \<noteq> activeTabId s \<Longrightarrow> ?remaining \<noteq> []"
  proof -
    assume ne: "tid \<noteq> activeTabId s"
    from assms(2) obtain t where "t \<in> set (tabs s)" and "tab_id t = activeTabId s" by auto
    with ne have "t \<in> set ?remaining" by simp
    then show "?remaining \<noteq> []" by (metis empty_iff empty_set)
  qed
  show ?thesis
    using keep by (auto simp: deleteTab_def addTab_def createNewTab_def Let_def)
qed

text \<open>
  C4, the code at the failing input. The store holds the one tab \<open>a\<close>, which is active, and
  \<open>a\<close> is deleted while no update is pending. With React 18 no tab remains and none is
  created in the list, while the active id names the tab that \<open>addTab\<close> made; with React 17
  the deleted tab is still there beside the new one.
\<close>

theorem deleteTab_last_tab_no_replacement:
  "deleteTab EagerNestedFirst (js ''a'') (js ''n'')
       \<lparr>tabs = [createNewTab (js ''A'') (Some (js ''a'')) []], activeTabId = js ''a''\<rparr>
     = \<lparr>tabs = [], activeTabId = js ''n''\<rparr>
   \<and> deleteTab EagerOuterFirst (js ''a'') (js ''n'')
       \<lparr>tabs = [createNewTab (js ''A'') (Some (js ''a'')) []], activeTabId = js ''a''\<rparr>
     = \<lparr>tabs = [createNewTab (js ''A'') (Some (js ''a'')) [],
                createNewTab (tabLabel @ js ''2'') None (js ''n'')],
        activeTabId = js ''n''\<rparr>
   \<and> deleteTab DuringRender (js ''a'') (js ''n'')
       \<lparr>tabs = [createNewTab (js ''A'') (Some (js ''a'')) []], activeTabId = js ''a''\<rparr>
     = \<lparr>tabs = [createNewTab (tabLabel @ js ''2'') None (js ''n'')],
        activeTabId = js ''n''\<rparr>"
  using toDecimal_2
  by (simp add: deleteTab_def addTab_def createNewTab_def js_def Let_def)

lemma splice_remove:
  assumes "0 \<le> i" "i < int (length xs)"
  shows "splice xs i 1 [] = ([xs ! nat i], take (nat i) xs @ drop (Suc (nat i)) xs)"
proof -
  have a: "relativeStart i (length xs) = nat i" using assms by (simp add: relativeStart_def)
  have lt: "nat i < length xs" using assms by simp
  have t: "take 1 (drop (nat i) xs) = [xs ! nat i]"
    using lt by (simp add: take_Suc_conv_app_nth hd_drop_conv_nth drop_eq_Nil)
  have m: "min 1 (length xs - nat i) = 1" using lt by simp
  show ?thesis unfolding splice_def a Let_def m t by simp
qed

lemma splice_insert:
  "snd (splice ys j 0 [x]) =
     take (relativeStart j (length ys)) ys @ [x] @ drop (relativeStart j (length ys)) ys"
  by (simp add: splice_def Let_def)

lemma mset_insert_at: "mset (take k r @ [x] @ drop k r) = add_mset x (mset r)"
proof -
  have "mset (take k r @ [x] @ drop k r) = add_mset x (mset (take k r @ drop k r))"
    by (simp del: append_take_drop_id)
  then show ?thesis by (simp only: append_take_drop_id)
qed

lemma mset_remove_at:
  assumes "i < length xs"
  shows "add_mset (xs ! i) (mset (take i xs @ drop (Suc i) xs)) = mset xs"
proof -
  have "mset xs = mset (take i xs @ xs ! i # drop (Suc i) xs)"
    using assms by (simp only: Cons_nth_drop_Suc append_take_drop_id)
  then show ?thesis by simp
qed

lemma move_mset:
  assumes "i < length xs"
  shows "mset (snd (splice (take i xs @ drop (Suc i) xs) j 0 [xs ! i])) = mset xs"
  unfolding splice_insert mset_insert_at using assms by (rule mset_remove_at)

lemma reorderTabs_mset:
  assumes "0 \<le> fromIndex" "fromIndex < int (length (tabs s))"
      and "0 \<le> toIndex" "toIndex < int (length (tabs s))"
  shows "\<exists>s'. reorderTabs fromIndex toIndex s = Some s'
           \<and> mset (tabs s') = mset (tabs s)
           \<and> mset (map tab_id (tabs s')) = mset (map tab_id (tabs s))
           \<and> set (map tab_id (tabs s')) = set (map tab_id (tabs s))
           \<and> length (tabs s') = length (tabs s)
           \<and> activeTabId s' = activeTabId s"
proof -
  define i where "i = nat fromIndex"
  define ys where "ys = snd (splice (take i (tabs s) @ drop (Suc i) (tabs s)) toIndex 0 [tabs s ! i])"
  have lt: "i < length (tabs s)" using assms by (simp add: i_def)
  have sr: "splice (tabs s) fromIndex 1 [] = ([tabs s ! i], take i (tabs s) @ drop (Suc i) (tabs s))"
    unfolding i_def using assms(1,2) by (rule splice_remove)
  have r: "reorderTabs fromIndex toIndex s = Some (s\<lparr>tabs := ys\<rparr>)"
    unfolding reorderTabs_def sr ys_def by simp
  have m: "mset ys = mset (tabs s)"
    unfolding ys_def using lt by (rule move_mset)
  have m2: "mset (map tab_id ys) = mset (map tab_id (tabs s))"
    unfolding mset_map using m by (rule arg_cong)
  have m3: "set (map tab_id ys) = set (map tab_id (tabs s))"
    using m2 by (rule mset_eq_setD)
  have m4: "length ys = length (tabs s)" using m by (rule mset_eq_length)
  show ?thesis using r m m2 m3 m4 by simp
qed

text \<open>
  C5. For indices that are both within the list, \<open>reorderTabs\<close> gives a list with the same
  tabs as before, each as often as before, so the same ids with the same names and
  content states; the list has the same length and the active id is unchanged.
\<close>

theorem reorderTabs_permutation:
  assumes "0 \<le> fromIndex" "fromIndex < int (length (tabs s))"
      and "0 \<le> toIndex" "toIndex < int (length (tabs s))"
  shows "\<exists>s'. reorderTabs fromIndex toIndex s = Some s'
           \<and> mset (tabs s') = mset (tabs s)
           \<and> mset (map tab_id (tabs s')) = mset (map tab_id (tabs s))
           \<and> set (map tab_id (tabs s')) = set (map tab_id (tabs s))
           \<and> length (tabs s') = length (tabs s)
           \<and> activeTabId s' = activeTabId s"
  using assms by (rule reorderTabs_mset)

text \<open>The first of three tabs dragged onto the last.\<close>

theorem reorderTabs_permutation_witness:
  "(0::int) \<le> 0 \<and> (0::int) < int (length [createNewTab (js ''A'') (Some (js ''a'')) [],
        createNewTab (js ''B'') (Some (js ''b'')) [],
        createNewTab (js ''C'') (Some (js ''c'')) []])
   \<and> (0::int) \<le> 2 \<and> (2::int) < int (length [createNewTab (js ''A'') (Some (js ''a'')) [],
        createNewTab (js ''B'') (Some (js ''b'')) [],
        createNewTab (js ''C'') (Some (js ''c'')) []])
   \<and> reorderTabs 0 2
       \<lparr>tabs = [createNewTab (js ''A'') (Some (js ''a'')) [],
                createNewTab (js ''B'') (Some (js ''b'')) [],
                createNewTab (js ''C'') (Some (js ''c'')) []],
        activeTabId = js ''a''\<rparr>
     = Some \<lparr>tabs = [createNewTab (js ''B'') (Some (js ''b'')) [],
                     createNewTab (js ''C'') (Some (js ''c'')) [],
                     createNewTab (js ''A'') (Some (js ''a'')) []],
             activeTabId = js ''a''\<rparr>
   \<and> mset [createNewTab (js ''B'') (Some (js ''b'')) [],
            createNewTab (js ''C'') (Some (js ''c'')) [],
            createNewTab (js ''A'') (Some (js ''a'')) []]
     = mset [createNewTab (js ''A'') (Some (js ''a'')) [],
            createNewTab (js ''B'') (Some (js ''b'')) [],
            createNewTab (js ''C'') (Some (js ''c'')) []]"
  using reorderTabs_permutation [of 0
      "\<lparr>tabs = [createNewTab (js ''A'') (Some (js ''a'')) [],
               createNewTab (js ''B'') (Some (js ''b'')) [],
               createNewTab (js ''C'') (Some (js ''c'')) []],
       activeTabId = js ''a''\<rparr>" 2]
  by (auto simp: reorderTabs_def splice_def relativeStart_def Let_def)

lemma trim_blank:
  assumes "list_all isWhiteSpace s"
  shows "trim s = []"
proof -
  have "\<forall>c\<in>set s. isWhiteSpace c" using assms by (simp only: list_all_iff)
  then have "dropWhile isWhiteSpace s = []" by (simp only: dropWhile_eq_Nil_conv)
  then show ?thesis unfolding trim_def by (simp only: rev.simps dropWhile.simps)
qed

text \<open>
  C7. A rename reaches the store through \<open>handleRenameSubmit\<close> only. When the name typed
  is empty or consists of white space only, \<open>handleRenameSubmit\<close> does not call
  \<open>renameTab\<close>: the store, and so the name and every other state of every session, is
  unchanged.
\<close>

theorem handleRenameSubmit_blank_noop:
  assumes "list_all isWhiteSpace (newTabName local)"
  shows "snd (handleRenameSubmit tid tabName local s) = s"
  using trim_blank [OF assms] by (simp add: handleRenameSubmit_def)

text \<open>Two spaces typed over the name \<open>A\<close> of tab \<open>a\<close>.\<close>

theorem handleRenameSubmit_blank_noop_witness:
  "list_all isWhiteSpace (newTabName \<lparr>isEditing = True, newTabName = js ''  ''\<rparr>)
   \<and> snd (handleRenameSubmit (js ''a'') (js ''A'')
           \<lparr>isEditing = True, newTabName = js ''  ''\<rparr>
           \<lparr>tabs = [createNewTab (js ''A'') (Some (js ''a'')) []], activeTabId = js ''a''\<rparr>)
     = \<lparr>tabs = [createNewTab (js ''A'') (Some (js ''a'')) []], activeTabId = js ''a''\<rparr>"
  using handleRenameSubmit_blank_noop [of "\<lparr>isEditing = True, newTabName = js ''  ''\<rparr>"
      "js ''a''" "js ''A''"
      "\<lparr>tabs = [createNewTab (js ''A'') (Some (js ''a'')) []], activeTabId = js ''a''\<rparr>"]
  by (simp add: js_def isWhiteSpace_def)

section \<open>Proofs: the session panel and the image intake\<close>

lemma tabs_change:
  "tabs (onTabContentStateChange tid newState s) =
     map (\<lambda>tab. if tab_id tab = tid
                  then tab\<lparr>contentState := spread (contentState tab) newState\<rparr>
                  else tab) (tabs s)"
  by (simp add: onTabContentStateChange_def)

lemma ids_change: "map tab_id (tabs (onTabContentStateChange tid newState s)) = map tab_id (tabs s)"
  by (simp add: tabs_change)

lemma active_change: "activeTabId (onTabContentStateChange tid newState s) = activeTabId s"
  by (simp add: onTabContentStateChange_def)

lemma changed_tab:
  assumes "t' \<in> set (tabs (onTabContentStateChange tid newState s))" and "tab_id t' = tid"
  shows "\<exists>t::Tab. contentState t' = spread (contentState t) newState"
proof -
  from assms(1) obtain t :: Tab where
    e: "t' = (if tab_id t = tid
              then t\<lparr>contentState := spread (contentState t) newState\<rparr> else t)"
    unfolding tabs_change set_map by (elim imageE)
  show ?thesis
  proof (cases "tab_id t = tid")
    case True
    with e have "contentState t' = spread (contentState t) newState" by simp
    then show ?thesis by (rule exI)
  next
    case False
    with e assms(2) show ?thesis by simp
  qed
qed

lemma upload_clears:
  assumes "t' \<in> set (tabs (handleImageUpload tid img s))" and "tab_id t' = tid"
  shows "uploadedImage (contentState t') = Some img
       \<and> rawAnalysisResult (contentState t') = None \<and> error (contentState t') = None"
proof -
  from changed_tab [OF assms [unfolded handleImageUpload_def]] obtain t :: Tab where
    "contentState t' =
       spread (contentState t) [UploadedImage (Some img), RawAnalysisResult None, Error None]"
    by (elim exE)
  then show ?thesis by (simp add: spread_def)
qed

lemma delete_clears:
  assumes "t' \<in> set (tabs (handleDeleteImage tid s))" and "tab_id t' = tid"
  shows "uploadedImage (contentState t') = None
       \<and> rawAnalysisResult (contentState t') = None \<and> error (contentState t') = None"
proof -
  from changed_tab [OF assms [unfolded handleDeleteImage_def]] obtain t :: Tab where
    "contentState t' =
       spread (contentState t) [UploadedImage None, RawAnalysisResult None, Error None]"
    by (elim exE)
  then show ?thesis by (simp add: spread_def)
qed

lemma set_error_tabs:
  "tabs (onTabContentStateChange tid [Error e] s) =
     map (\<lambda>tab. if tab_id tab = tid
                  then tab\<lparr>contentState := (contentState tab)\<lparr>error := e\<rparr>\<rparr>
                  else tab) (tabs s)"
  by (simp add: tabs_change spread_def)

lemma set_error_keeps:
  "map (uploadedImage \<circ> contentState) (tabs (onTabContentStateChange tid [Error e] s))
     = map (uploadedImage \<circ> contentState) (tabs s)"
  "map (selectedOptions \<circ> contentState) (tabs (onTabContentStateChange tid [Error e] s))
     = map (selectedOptions \<circ> contentState) (tabs s)"
  "map (rawAnalysisResult \<circ> contentState) (tabs (onTabContentStateChange tid [Error e] s))
     = map (rawAnalysisResult \<circ> contentState) (tabs s)"
  by (simp_all add: set_error_tabs)

lemma analyze_refused:
  assumes "uploadedImage cs = Some img" and "img \<noteq> []"
      and "OTHER \<in> set (selectedOptions cs)"
      and "list_all isWhiteSpace (otherAnalysisText cs)"
  shows "handleAnalyze tid cs analyzeImage isDetailedRequest s =
           (onTabContentStateChange tid [Error (Some errOtherNeedsText)] s, [])"
  using assms trim_blank [OF assms(4)] by (simp add: handleAnalyze_def)

lemma crop_is_upload: "snd (handleCropComplete tid img local s) = handleImageUpload tid img s"
  by (simp add: handleCropComplete_def)

lemma image_change:
  "(\<forall>t' \<in> set (tabs (handleImageUpload tid img s)). tab_id t' = tid \<longrightarrow>
       uploadedImage (contentState t') = Some img
     \<and> rawAnalysisResult (contentState t') = None \<and> error (contentState t') = None)
 \<and> (\<forall>t' \<in> set (tabs (snd (handleCropComplete tid img local s))). tab_id t' = tid \<longrightarrow>
       uploadedImage (contentState t') = Some img
     \<and> rawAnalysisResult (contentState t') = None \<and> error (contentState t') = None)
 \<and> (\<forall>t' \<in> set (tabs (handleDeleteImage tid s)). tab_id t' = tid \<longrightarrow>
       uploadedImage (contentState t') = None
     \<and> rawAnalysisResult (contentState t') = None \<and> error (contentState t') = None)
 \<and> map tab_id (tabs (handleImageUpload tid img s)) = map tab_id (tabs s)
 \<and> map tab_id (tabs (snd (handleCropComplete tid img local s))) = map tab_id (tabs s)
 \<and> map tab_id (tabs (handleDeleteImage tid s)) = map tab_id (tabs s)
 \<and> handleImageUpload tid img s =
      onTabContentStateChange tid
        [UploadedImage (Some img), RawAnalysisResult None, Error None] s
 \<and> snd (handleCropComplete tid img local s) =
      onTabContentStateChange tid
        [UploadedImage (Some img), RawAnalysisResult None, Error None] s
 \<and> handleDeleteImage tid s =
      onTabContentStateChange tid [UploadedImage None, RawAnalysisResult None, Error None] s"
proof -
  have u: "\<forall>t' \<in> set (tabs (handleImageUpload tid img s)). tab_id t' = tid \<longrightarrow>
       uploadedImage (contentState t') = Some img
     \<and> rawAnalysisResult (contentState t') = None \<and> error (contentState t') = None"
    using upload_clears by blast
  have d: "\<forall>t' \<in> set (tabs (handleDeleteImage tid s)). tab_id t' = tid \<longrightarrow>
       uploadedImage (contentState t') = None
     \<and> rawAnalysisResult (contentState t') = None \<and> error (contentState t') = None"
    using delete_clears by blast
  have iu: "map tab_id (tabs (handleImageUpload tid img s)) = map tab_id (tabs s)"
    unfolding handleImageUpload_def by (rule ids_change)
  have idl: "map tab_id (tabs (handleDeleteImage tid s)) = map tab_id (tabs s)"
    unfolding handleDeleteImage_def by (rule ids_change)
  show ?thesis
    unfolding crop_is_upload
    using u d iu idl
    by (simp only: handleImageUpload_def handleDeleteImage_def simp_thms)
qed

lemma set_error_twice:
  "onTabContentStateChange tid [Error e2] (onTabContentStateChange tid [Error e1] s)
     = onTabContentStateChange tid [Error e2] s"
proof -
  have "map ((\<lambda>tab. if tab_id tab = tid
                       then tab\<lparr>contentState := (contentState tab)\<lparr>error := e2\<rparr>\<rparr> else tab)
             \<circ> (\<lambda>tab. if tab_id tab = tid
                       then tab\<lparr>contentState := (contentState tab)\<lparr>error := e1\<rparr>\<rparr> else tab))
          (tabs s)
      = map (\<lambda>tab. if tab_id tab = tid
                       then tab\<lparr>contentState := (contentState tab)\<lparr>error := e2\<rparr>\<rparr> else tab)
          (tabs s)"
    by (rule map_cong) simp_all
  then show ?thesis
    by (simp add: onTabContentStateChange_def spread_def)
qed

lemma paste_refused:
  assumes "uploadedImage cs = Some img" and "img \<noteq> []"
  shows "handlePaste tid cs isValidImageUrl fetch clipboardData local s =
           (local, onTabContentStateChange tid [Error (Some errImageAlreadyThere)] s)"
  unfolding handlePaste_def handleSetError_def Let_def
  using assms by (simp add: set_error_twice)

text \<open>
  C6. Uploading an image into the session \<open>tid\<close>, committing a cropped image, and deleting
  the image are each one update of the content state, after which every tab with that id
  holds no analysis result and no error message (and the new image, or none); the tabs
  and their ids are the same as before.
\<close>

theorem image_change_clears_analysis:
  "(\<forall>t' \<in> set (tabs (handleImageUpload tid img s)). tab_id t' = tid \<longrightarrow>
       uploadedImage (contentState t') = Some img
     \<and> rawAnalysisResult (contentState t') = None \<and> error (contentState t') = None)
 \<and> (\<forall>t' \<in> set (tabs (snd (handleCropComplete tid img local s))). tab_id t' = tid \<longrightarrow>
       uploadedImage (contentState t') = Some img
     \<and> rawAnalysisResult (contentState t') = None \<and> error (contentState t') = None)
 \<and> (\<forall>t' \<in> set (tabs (handleDeleteImage tid s)). tab_id t' = tid \<longrightarrow>
       uploadedImage (contentState t') = None
     \<and> rawAnalysisResult (contentState t') = None \<and> error (contentState t') = None)
 \<and> map tab_id (tabs (handleImageUpload tid img s)) = map tab_id (tabs s)
 \<and> map tab_id (tabs (snd (handleCropComplete tid img local s))) = map tab_id (tabs s)
 \<and> map tab_id (tabs (handleDeleteImage tid s)) = map tab_id (tabs s)
 \<and> handleImageUpload tid img s =
      onTabContentStateChange tid
        [UploadedImage (Some img), RawAnalysisResult None, Error None] s
 \<and> snd (handleCropComplete tid img local s) =
      onTabContentStateChange tid
        [UploadedImage (Some img), RawAnalysisResult None, Error None] s
 \<and> handleDeleteImage tid s =
      onTabContentStateChange tid [UploadedImage None, RawAnalysisResult None, Error None] s"
  by (rule image_change)

text \<open>
  A tab \<open>a\<close> that holds the image \<open>old\<close>, an analysis result and an error: after the
  upload of \<open>new\<close>, after a crop to \<open>new\<close> and after the deletion.
\<close>

theorem image_change_clears_analysis_witness:
  "handleImageUpload (js ''a'') (js ''new'')
     \<lparr>tabs = [\<lparr>tab_id = js ''a'', name = js ''A'',
               contentState = \<lparr>uploadedImage = Some (js ''old''), selectedOptions = [],
                 rawAnalysisResult = Some \<lparr>characterAttire = Some (js ''X''),
                   characterPose = None, characterExpression = None,
                   photoBackground = None, cameraAngle = None, otherAnalysis = None\<rparr>,
                 isLoading = False, error = Some (js ''e''), otherAnalysisText = []\<rparr>\<rparr>],
      activeTabId = js ''a''\<rparr>
   = \<lparr>tabs = [\<lparr>tab_id = js ''a'', name = js ''A'',
               contentState = \<lparr>uploadedImage = Some (js ''new''), selectedOptions = [],
                 rawAnalysisResult = None,
                 isLoading = False, error = None, otherAnalysisText = []\<rparr>\<rparr>],
      activeTabId = js ''a''\<rparr>
 \<and> snd (handleCropComplete (js ''a'') (js ''new'')
     \<lparr>isProcessingPaste = False, urlInput = [], isUrlLoading = False, showCropper = True,
      imageToCropUrl = Some (js ''old'')\<rparr>
     \<lparr>tabs = [\<lparr>tab_id = js ''a'', name = js ''A'',
               contentState = \<lparr>uploadedImage = Some (js ''old''), selectedOptions = [],
                 rawAnalysisResult = Some \<lparr>characterAttire = Some (js ''X''),
                   characterPose = None, characterExpression = None,
                   photoBackground = None, cameraAngle = None, otherAnalysis = None\<rparr>,
                 isLoading = False, error = Some (js ''e''), otherAnalysisText = []\<rparr>\<rparr>],
      activeTabId = js ''a''\<rparr>)
   = \<lparr>tabs = [\<lparr>tab_id = js ''a'', name = js ''A'',
               contentState = \<lparr>uploadedImage = Some (js ''new''), selectedOptions = [],
                 rawAnalysisResult = None,
                 isLoading = False, error = None, otherAnalysisText = []\<rparr>\<rparr>],
      activeTabId = js ''a''\<rparr>
 \<and> handleDeleteImage (js ''a'')
     \<lparr>tabs = [\<lparr>tab_id = js ''a'', name = js ''A'',
               contentState = \<lparr>uploadedImage = Some (js ''old''), selectedOptions = [],
                 rawAnalysisResult = Some \<lparr>characterAttire = Some (js ''X''),
                   characterPose = None, characterExpression = None,
                   photoBackground = None, cameraAngle = None, otherAnalysis = None\<rparr>,
                 isLoading = False, error = Some (js ''e''), otherAnalysisText = []\<rparr>\<rparr>],
      activeTabId = js ''a''\<rparr>
   = \<lparr>tabs = [\<lparr>tab_id = js ''a'', name = js ''A'',
               contentState = \<lparr>uploadedImage = None, selectedOptions = [],
                 rawAnalysisResult = None,
                 isLoading = False, error = None, otherAnalysisText = []\<rparr>\<rparr>],
      activeTabId = js ''a''\<rparr>"
  using image_change_clears_analysis [of "js ''a''" "js ''new''"
     "\<lparr>tabs = [\<lparr>tab_id = js ''a'', name = js ''A'',
               contentState = \<lparr>uploadedImage = Some (js ''old''), selectedOptions = [],
                 rawAnalysisResult = Some \<lparr>characterAttire = Some (js ''X''),
                   characterPose = None, characterExpression = None,
                   photoBackground = None, cameraAngle = None, otherAnalysis = None\<rparr>,
                 isLoading = False, error = Some (js ''e''), otherAnalysisText = []\<rparr>\<rparr>],
      activeTabId = js ''a''\<rparr>"
     "\<lparr>isProcessingPaste = False, urlInput = [], isUrlLoading = False, showCropper = True,
      imageToCropUrl = Some (js ''old'')\<rparr>"]
  by (simp add: onTabContentStateChange_def spread_def)

text \<open>
  C8. When the panel is rendered from a content state that holds an image (a string that
  is not empty, as every data URL is), has \<open>OTHER\<close> among the selected options and a
  free text that is empty or white space only, \<open>handleAnalyze\<close> makes no call to the
  analysis client and its only update sets the error message of the session: the image,
  the selected options and the analysis result of every tab are as before.
\<close>

theorem handleAnalyze_other_needs_text:
  assumes "uploadedImage cs = Some img" and "img \<noteq> []"
      and "OTHER \<in> set (selectedOptions cs)"
      and "list_all isWhiteSpace (otherAnalysisText cs)"
  shows "handleAnalyze tid cs analyzeImage isDetailedRequest s =
           (onTabContentStateChange tid [Error (Some errOtherNeedsText)] s, [])
       \<and> snd (handleAnalyze tid cs analyzeImage isDetailedRequest s) = []
       \<and> tabs (fst (handleAnalyze tid cs analyzeImage isDetailedRequest s)) =
           map (\<lambda>tab. if tab_id tab = tid
                        then tab\<lparr>contentState :=
                               (contentState tab)\<lparr>error := Some errOtherNeedsText\<rparr>\<rparr>
                        else tab) (tabs s)
       \<and> map (uploadedImage \<circ> contentState)
             (tabs (fst (handleAnalyze tid cs analyzeImage isDetailedRequest s)))
           = map (uploadedImage \<circ> contentState) (tabs s)
       \<and> map (selectedOptions \<circ> contentState)
             (tabs (fst (handleAnalyze tid cs analyzeImage isDetailedRequest s)))
           = map (selectedOptions \<circ> contentState) (tabs s)
       \<and> map (rawAnalysisResult \<circ> contentState)
             (tabs (fst (handleAnalyze tid cs analyzeImage isDetailedRequest s)))
           = map (rawAnalysisResult \<circ> contentState) (tabs s)"
  unfolding analyze_refused [OF assms] fst_conv snd_conv
  by (intro conjI refl set_error_tabs set_error_keeps)

text \<open>
  Tab \<open>a\<close> with an image, \<open>OTHER\<close> selected and one space as free text, and a client that
  would answer: the error is set and the client is not called.
\<close>

theorem handleAnalyze_other_needs_text_witness:
  "uploadedImage \<lparr>uploadedImage = Some (js ''data:image/png;base64,AAAA''),
       selectedOptions = [CHARACTER_POSE, OTHER], rawAnalysisResult = None,
       isLoading = False, error = None, otherAnalysisText = js '' ''\<rparr>
     = Some (js ''data:image/png;base64,AAAA'')
   \<and> js ''data:image/png;base64,AAAA'' \<noteq> []
   \<and> OTHER \<in> set [CHARACTER_POSE, OTHER]
   \<and> list_all isWhiteSpace (js '' '')
   \<and> handleAnalyze (js ''a'')
       \<lparr>uploadedImage = Some (js ''data:image/png;base64,AAAA''),
        selectedOptions = [CHARACTER_POSE, OTHER], rawAnalysisResult = None,
        isLoading = False, error = None, otherAnalysisText = js '' ''\<rparr>
       (\<lambda>call. Resolved \<lparr>characterAttire = None, characterPose = Some (js ''Y''),
          characterExpression = None, photoBackground = None, cameraAngle = None,
          otherAnalysis = Some (js ''Z'')\<rparr>)
       False
       \<lparr>tabs = [\<lparr>tab_id = js ''a'', name = js ''A'',
                 contentState = \<lparr>uploadedImage = Some (js ''data:image/png;base64,AAAA''),
                   selectedOptions = [CHARACTER_POSE, OTHER], rawAnalysisResult = None,
                   isLoading = False, error = None, otherAnalysisText = js '' ''\<rparr>\<rparr>],
        activeTabId = js ''a''\<rparr>
     = (\<lparr>tabs = [\<lparr>tab_id = js ''a'', name = js ''A'',
                 contentState = \<lparr>uploadedImage = Some (js ''data:image/png;base64,AAAA''),
                   selectedOptions = [CHARACTER_POSE, OTHER], rawAnalysisResult = None,
                   isLoading = False, error = Some errOtherNeedsText,
                   otherAnalysisText = js '' ''\<rparr>\<rparr>],
         activeTabId = js ''a''\<rparr>, [])"
  using handleAnalyze_other_needs_text [of
      "\<lparr>uploadedImage = Some (js ''data:image/png;base64,AAAA''),
        selectedOptions = [CHARACTER_POSE, OTHER], rawAnalysisResult = None,
        isLoading = False, error = None, otherAnalysisText = js '' ''\<rparr>"
      "js ''data:image/png;base64,AAAA''" "js ''a''"
      "\<lambda>call. Resolved \<lparr>characterAttire = None, characterPose = Some (js ''Y''),
          characterExpression = None, photoBackground = None, cameraAngle = None,
          otherAnalysis = Some (js ''Z'')\<rparr>"
      False
      "\<lparr>tabs = [\<lparr>tab_id = js ''a'', name = js ''A'',
                 contentState = \<lparr>uploadedImage = Some (js ''data:image/png;base64,AAAA''),
                   selectedOptions = [CHARACTER_POSE, OTHER], rawAnalysisResult = None,
                   isLoading = False, error = None, otherAnalysisText = js '' ''\<rparr>\<rparr>],
        activeTabId = js ''a''\<rparr>"]
  by (simp add: js_def isWhiteSpace_def onTabContentStateChange_def spread_def)

text \<open>
  C9. When the uploader is rendered from a content state that holds an image (a string
  that is not empty, as every data URL is), a paste, whatever the clipboard holds and
  whatever is loading, uploads nothing: its updates leave the error message
  that an image is already there, and the image and the analysis result of every tab are
  as before. The state of the uploader itself is unchanged.
\<close>

theorem handlePaste_refused_when_image_held:
  assumes "uploadedImage cs = Some img" and "img \<noteq> []"
  shows "handlePaste tid cs isValidImageUrl fetch clipboardData local s =
           (local, onTabContentStateChange tid [Error (Some errImageAlreadyThere)] s)
       \<and> tabs (snd (handlePaste tid cs isValidImageUrl fetch clipboardData local s)) =
           map (\<lambda>tab. if tab_id tab = tid
                        then tab\<lparr>contentState :=
                               (contentState tab)\<lparr>error := Some errImageAlreadyThere\<rparr>\<rparr>
                        else tab) (tabs s)
       \<and> map (uploadedImage \<circ> contentState)
             (tabs (snd (handlePaste tid cs isValidImageUrl fetch clipboardData local s)))
           = map (uploadedImage \<circ> contentState) (tabs s)
       \<and> map (rawAnalysisResult \<circ> contentState)
             (tabs (snd (handlePaste tid cs isValidImageUrl fetch clipboardData local s)))
           = map (rawAnalysisResult \<circ> contentState) (tabs s)"
  unfolding paste_refused [OF assms] fst_conv snd_conv
  by (intro conjI refl set_error_tabs set_error_keeps)

text \<open>
  Tab \<open>a\<close> holds the image \<open>old\<close> and an analysis result; the clipboard holds an image file
  that reads as \<open>new\<close>. The image and the result stay and the error is set.
\<close>

theorem handlePaste_refused_when_image_held_witness:
  "uploadedImage \<lparr>uploadedImage = Some (js ''old''), selectedOptions = [],
       rawAnalysisResult = Some \<lparr>characterAttire = Some (js ''X''),
         characterPose = None, characterExpression = None,
         photoBackground = None, cameraAngle = None, otherAnalysis = None\<rparr>,
       isLoading = False, error = None, otherAnalysisText = []\<rparr> = Some (js ''old'')
   \<and> js ''old'' \<noteq> []
   \<and> handlePaste (js ''a'')
       \<lparr>uploadedImage = Some (js ''old''), selectedOptions = [],
        rawAnalysisResult = Some \<lparr>characterAttire = Some (js ''X''),
          characterPose = None, characterExpression = None,
          photoBackground = None, cameraAngle = None, otherAnalysis = None\<rparr>,
        isLoading = False, error = None, otherAnalysisText = []\<rparr>
       (\<lambda>url. True) (\<lambda>url. FetchThrows [])
       \<lparr>clipboardText = [], imageFileItem = Some (Some (DataUrl (js ''new'')))\<rparr>
       \<lparr>isProcessingPaste = False, urlInput = [], isUrlLoading = False,
        showCropper = False, imageToCropUrl = None\<rparr>
       \<lparr>tabs = [\<lparr>tab_id = js ''a'', name = js ''A'',
                 contentState = \<lparr>uploadedImage = Some (js ''old''), selectedOptions = [],
                   rawAnalysisResult = Some \<lparr>characterAttire = Some (js ''X''),
                     characterPose = None, characterExpression = None,
                     photoBackground = None, cameraAngle = None, otherAnalysis = None\<rparr>,
                   isLoading = False, error = None, otherAnalysisText = []\<rparr>\<rparr>],
        activeTabId = js ''a''\<rparr>
     = (\<lparr>isProcessingPaste = False, urlInput = [], isUrlLoading = False,
         showCropper = False, imageToCropUrl = None\<rparr>,
        \<lparr>tabs = [\<lparr>tab_id = js ''a'', name = js ''A'',
                 contentState = \<lparr>uploadedImage = Some (js ''old''), selectedOptions = [],
                   rawAnalysisResult = Some \<lparr>characterAttire = Some (js ''X''),
                     characterPose = None, characterExpression = None,
                     photoBackground = None, cameraAngle = None, otherAnalysis = None\<rparr>,
                   isLoading = False, error = Some errImageAlreadyThere,
                   otherAnalysisText = []\<rparr>\<rparr>],
         activeTabId = js ''a''\<rparr>)"
  using handlePaste_refused_when_image_held [of
      "\<lparr>uploadedImage = Some (js ''old''), selectedOptions = [],
        rawAnalysisResult = Some \<lparr>characterAttire = Some (js ''X''),
          characterPose = None, characterExpression = None,
          photoBackground = None, cameraAngle = None, otherAnalysis = None\<rparr>,
        isLoading = False, error = None, otherAnalysisText = []\<rparr>"
      "js ''old''" "js ''a''" "\<lambda>url. True" "\<lambda>url. FetchThrows []"
      "\<lparr>clipboardText = [], imageFileItem = Some (Some (DataUrl (js ''new'')))\<rparr>"
      "\<lparr>isProcessingPaste = False, urlInput = [], isUrlLoading = False,
        showCropper = False, imageToCropUrl = None\<rparr>"
      "\<lparr>tabs = [\<lparr>tab_id = js ''a'', name = js ''A'',
                 contentState = \<lparr>uploadedImage = Some (js ''old''), selectedOptions = [],
                   rawAnalysisResult = Some \<lparr>characterAttire = Some (js ''X''),
                     characterPose = None, characterExpression = None,
                     photoBackground = None, cameraAngle = None, otherAnalysis = None\<rparr>,
                   isLoading = False, error = None, otherAnalysisText = []\<rparr>\<rparr>],
        activeTabId = js ''a''\<rparr>"]
  by (simp add: js_def onTabContentStateChange_def spread_def)

section \<open>Proofs: encode and decode\<close>

lemma base64Alphabet_units:
  "base64Alphabet =
     [0x41, 0x42, 0x43, 0x44, 0x45, 0x46, 0x47, 0x48, 0x49, 0x4A, 0x4B, 0x4C, 0x4D,
      0x4E, 0x4F, 0x50, 0x51, 0x52, 0x53, 0x54, 0x55, 0x56, 0x57, 0x58, 0x59, 0x5A,
      0x61, 0x62, 0x63, 0x64, 0x65, 0x66, 0x67, 0x68, 0x69, 0x6A, 0x6B, 0x6C, 0x6D,
      0x6E, 0x6F, 0x70, 0x71, 0x72, 0x73, 0x74, 0x75, 0x76, 0x77, 0x78, 0x79, 0x7A,
      0x30, 0x31, 0x32, 0x33, 0x34, 0x35, 0x36, 0x37, 0x38, 0x39, 0x2B, 0x2F]"
  by (simp add: base64Alphabet_def js_def)

lemma length_base64Alphabet: "length base64Alphabet = 64"
  by (simp add: base64Alphabet_units)

lemma distinct_base64Alphabet: "distinct base64Alphabet"
  by (simp add: base64Alphabet_units)

lemma base64Alphabet_plain:
  "\<forall>c \<in> set base64Alphabet. \<not> isAsciiWhitespace c \<and> c \<noteq> 0x3D"
  by (simp add: base64Alphabet_units isAsciiWhitespace_def)

lemma index_nth:
  assumes "distinct xs" and "n < length xs"
  shows "length (takeWhile (\<lambda>x. x \<noteq> xs ! n) xs) = n"
  using assms
proof (induction xs arbitrary: n)
  case Nil
  then show ?case by simp
next
  case (Cons x xs)
  show ?case
  proof (cases n)
    case 0
    then show ?thesis by simp
  next
    case (Suc m)
    with Cons.prems have m: "m < length xs" and d: "distinct xs" and nx: "x \<notin> set xs"
      by simp_all
    from m nx have "xs ! m \<noteq> x" by (metis nth_mem)
    with Cons.IH [OF d m] Suc show ?thesis by simp
  qed
qed

lemma base64Index_Char:
  assumes "n < 64"
  shows "base64Index (base64Char n) = n"
  unfolding base64Index_def base64Char_def
  using distinct_base64Alphabet assms by (simp add: index_nth length_base64Alphabet)

lemma base64Char_in: "n < 64 \<Longrightarrow> base64Char n \<in> set base64Alphabet"
  by (simp add: base64Char_def length_base64Alphabet)

lemma div_4096: "(n::nat) div 4096 = n div 64 div 64"
  by (simp add: div_mult2_eq [symmetric])

lemma div_262144: "(n::nat) div 262144 = n div 64 div 64 div 64"
  by (simp add: div_mult2_eq [symmetric])

lemma split_64: "(n::nat) = n div 64 * 64 + n mod 64"
  by simp

lemma join_2:
  fixes n q1 q2 r0 r1 :: nat
  assumes "n = q1 * 64 + r0" and "q1 = q2 * 64 + r1"
  shows "q2 * 4096 + r1 * 64 + r0 = n"
  using assms by simp

lemma join_3:
  fixes n q1 q2 q3 r0 r1 r2 :: nat
  assumes "n = q1 * 64 + r0" and "q1 = q2 * 64 + r1" and "q2 = q3 * 64 + r2"
  shows "q3 * 262144 + r2 * 4096 + r1 * 64 + r0 = n"
  using assms by simp

lemma sextets_1: "(n::nat) div 64 * 64 + n mod 64 = n"
  by simp

lemma sextets_2: "(n::nat) div 4096 * 4096 + n div 64 mod 64 * 64 + n mod 64 = n"
  unfolding div_4096 by (rule join_2 [OF split_64 split_64])

lemma sextets_3:
  "(n::nat) div 262144 * 262144 + n div 4096 mod 64 * 4096 + n div 64 mod 64 * 64 + n mod 64 = n"
  unfolding div_4096 div_262144 by (rule join_3 [OF split_64 split_64 split_64])

lemma one_byte:
  fixes x :: nat
  shows "((x * 65536) div 262144 * 64 + (x * 65536) div 4096 mod 64) div 16 = x"
proof -
  have a: "(x * 65536) div 262144 = (x * 65536) div 4096 div 64"
    by (simp add: div_mult2_eq [symmetric])
  have "((x * 65536) div 4096 div 64 * 64 + (x * 65536) div 4096 mod 64) div 16
          = (x * 65536) div 4096 div 16"
    by (simp only: sextets_1)
  also have "\<dots> = x" by (simp add: div_mult2_eq [symmetric])
  finally show ?thesis unfolding a .
qed

lemma two_bytes:
  fixes x y :: nat
  assumes "y < 256"
  shows "((x * 65536 + y * 256) div 262144 * 4096
          + (x * 65536 + y * 256) div 4096 mod 64 * 64
          + (x * 65536 + y * 256) div 64 mod 64) div 4 = x * 256 + y"
proof -
  define m where "m = (x * 65536 + y * 256) div 64"
  have a: "(x * 65536 + y * 256) div 262144 = m div 4096"
    by (simp add: m_def div_mult2_eq [symmetric])
  have b: "(x * 65536 + y * 256) div 4096 = m div 64"
    by (simp add: m_def div_mult2_eq [symmetric])
  have "(m div 4096 * 4096 + m div 64 mod 64 * 64 + m mod 64) div 4 = m div 4"
    by (simp only: sextets_2)
  also have "\<dots> = (x * 65536 + y * 256) div 256"
    by (simp add: m_def div_mult2_eq [symmetric])
  also have "\<dots> = x * 256 + y" by simp
  finally show ?thesis unfolding a b m_def [symmetric] .
qed

lemma three_bytes_parts:
  fixes x y z :: nat
  assumes "y < 256" and "z < 256"
  shows "(x * 65536 + y * 256 + z) div 65536 = x
       \<and> (x * 65536 + y * 256 + z) div 256 mod 256 = y
       \<and> (x * 65536 + y * 256 + z) mod 256 = z"
proof -
  have e: "x * 65536 + y * 256 + z = (x * 256 + y) * 256 + z" by simp
  have d: "(x * 65536 + y * 256 + z) div 256 = x * 256 + y"
    unfolding e using assms(2) by simp
  have "(x * 65536 + y * 256 + z) div 65536 = (x * 65536 + y * 256 + z) div 256 div 256"
    by (simp add: div_mult2_eq [symmetric])
  also have "\<dots> = x" unfolding d using assms(1) by simp
  finally have 1: "(x * 65536 + y * 256 + z) div 65536 = x" .
  have 2: "(x * 65536 + y * 256 + z) div 256 mod 256 = y"
    unfolding d using assms(1) by simp
  have "((x * 256 + y) * 256 + z) mod 256 = z mod 256" by (rule mod_mult_self3)
  then have 3: "(x * 65536 + y * 256 + z) mod 256 = z"
    unfolding e using assms(2) by (simp only: mod_less)
  from 1 2 3 show ?thesis by simp
qed

lemma unat_byte: "unat (a :: 8 word) < 256"
  using unsigned_less [of a, where ?'a = nat] by simp

lemma byte_of_unat: "(of_nat (unat (a :: 8 word)) :: 8 word) = a"
  by simp

lemma decodeSextets_sextetsOf: "decodeSextets (sextetsOf bs) = bs"
proof (induction bs rule: sextetsOf.induct)
  case 1
  show ?case by simp
next
  case (2 a)
  show ?case
    by (simp only: sextetsOf.simps decodeSextets.simps Let_def one_byte byte_of_unat)
next
  case (3 a b)
  have b: "unat b < 256" by (rule unat_byte)
  have "decodeSextets (sextetsOf [a, b]) =
          [of_nat ((unat a * 256 + unat b) div 256), of_nat ((unat a * 256 + unat b) mod 256)]"
    by (simp only: sextetsOf.simps decodeSextets.simps Let_def two_bytes [OF b])
  then show ?case using b by simp
next
  case (4 a b c rest)
  have b: "unat b < 256" and c: "unat c < 256" by (rule unat_byte)+
  note parts = three_bytes_parts [OF b c, of "unat a"]
  show ?case
    by (simp only: sextetsOf.simps decodeSextets.simps Let_def append_Cons append_Nil
        sextets_3 parts byte_of_unat "4.IH")
qed

lemma sextet_bounds:
  fixes n :: nat
  assumes "n < 16777216"
  shows "n div 262144 < 64" and "n div 4096 mod 64 < 64" and "n div 64 mod 64 < 64"
    and "n mod 64 < 64"
  using assms by simp_all

lemma sextetsOf_bound: "list_all (\<lambda>n. n < 64) (sextetsOf bs)"
proof (induction bs rule: sextetsOf.induct)
  case 1
  show ?case by simp
next
  case (2 a)
  have "unat a * 65536 < 16777216" using unat_byte [of a] by simp
  then show ?case by (simp add: sextet_bounds Let_def)
next
  case (3 a b)
  have "unat a * 65536 + unat b * 256 < 16777216"
    using unat_byte [of a] unat_byte [of b] by simp
  then show ?case by (simp add: sextet_bounds Let_def)
next
  case (4 a b c rest)
  have "unat a * 65536 + unat b * 256 + unat c < 16777216"
    using unat_byte [of a] unat_byte [of b] unat_byte [of c] by simp
  then show ?case using 4 by (simp add: sextet_bounds Let_def)
qed

lemma paddingOf_0: "paddingOf 0 = []"
  by (simp add: paddingOf_def)

lemma paddingOf_1: "paddingOf (Suc 0) = [0x3D, 0x3D]"
proof -
  have "(3 - Suc 0 mod 3) mod 3 = Suc (Suc 0)" by simp
  then show ?thesis by (simp only: paddingOf_def replicate.simps)
qed

lemma paddingOf_2: "paddingOf (Suc (Suc 0)) = [0x3D]"
proof -
  have "(3 - Suc (Suc 0) mod 3) mod 3 = Suc 0" by simp
  then show ?thesis by (simp only: paddingOf_def replicate.simps)
qed

lemma paddingOf_3: "paddingOf (Suc (Suc (Suc n))) = paddingOf n"
proof -
  have "Suc (Suc (Suc n)) mod 3 = (n + 3) mod 3" by (simp only: numeral_3_eq_3 add_Suc_right add_0_right)
  also have "\<dots> = n mod 3" by (rule mod_add_self2)
  finally show ?thesis by (simp only: paddingOf_def)
qed

lemmas paddingOf_simps = paddingOf_0 paddingOf_1 paddingOf_2 paddingOf_3

lemma base64Encode_split:
  "base64Encode bs = map base64Char (sextetsOf bs) @ paddingOf (length bs)"
  by (induction bs rule: sextetsOf.induct) (simp_all add: Let_def paddingOf_simps)

lemma paddingOf_cases: "paddingOf n \<in> {[], [0x3D], [0x3D, 0x3D]}"
proof -
  have "(3 - n mod 3) mod 3 < 3" by simp
  then have "(3 - n mod 3) mod 3 = 0 \<or> (3 - n mod 3) mod 3 = 1 \<or> (3 - n mod 3) mod 3 = 2"
    by linarith
  then show ?thesis unfolding paddingOf_def by (auto simp: numeral_2_eq_2)
qed

lemma encoded_length:
  "length (sextetsOf bs) mod 4 \<noteq> 1
   \<and> (length (sextetsOf bs) + length (paddingOf (length bs))) mod 4 = 0"
  by (induction bs rule: sextetsOf.induct) (simp_all add: Let_def paddingOf_simps)

lemma removePadding_body:
  assumes "\<forall>c \<in> set body. c \<noteq> 0x3D" and "pad \<in> {[], [0x3D], [0x3D, 0x3D]}"
  shows "removePadding (body @ pad) = body"
proof (cases body rule: rev_cases)
  case Nil
  with assms(2) show ?thesis by (auto simp: removePadding_def)
next
  case (snoc ys y)
  with assms(1) have y: "y \<noteq> 0x3D" by simp
  from assms(2) consider "pad = []" | "pad = [0x3D]" | "pad = [0x3D, 0x3D]" by auto
  then show ?thesis
  proof cases
    case 1
    with snoc y show ?thesis by (auto simp: removePadding_def)
  next
    case 2
    with snoc y show ?thesis by (auto simp: removePadding_def)
  next
    case 3
    with snoc y show ?thesis by (auto simp: removePadding_def)
  qed
qed

lemma body_in_alphabet:
  "\<forall>c \<in> set (map base64Char (sextetsOf bs)). c \<in> set base64Alphabet"
  using sextetsOf_bound [of bs] by (auto simp: list_all_iff base64Char_in)

lemma body_plain:
  "\<forall>c \<in> set (map base64Char (sextetsOf bs)). \<not> isAsciiWhitespace c \<and> c \<noteq> 0x3D"
  using body_in_alphabet [of bs] base64Alphabet_plain by blast

lemma padding_plain: "\<forall>c \<in> set (paddingOf n). \<not> isAsciiWhitespace c"
  using paddingOf_cases [of n] by (auto simp: isAsciiWhitespace_def)

lemma filter_encoded:
  "filter (\<lambda>c. \<not> isAsciiWhitespace c) (base64Encode bs) = base64Encode bs"
  unfolding base64Encode_split using body_plain [of bs] padding_plain [of "length bs"]
  by (simp add: filter_id_conv)

lemma index_body: "map (base64Index \<circ> base64Char) (sextetsOf bs) = sextetsOf bs"
proof -
  have "map (base64Index \<circ> base64Char) (sextetsOf bs) = map (\<lambda>n. n) (sextetsOf bs)"
    using sextetsOf_bound [of bs] by (intro map_cong refl) (simp add: list_all_iff base64Index_Char)
  then show ?thesis by simp
qed

lemma forgivingBase64Decode_base64Encode:
  "forgivingBase64Decode (base64Encode bs) = Some bs"
proof -
  let ?body = "map base64Char (sextetsOf bs)"
  have l0: "length (base64Encode bs) mod 4 = 0"
    unfolding base64Encode_split using encoded_length [of bs] by simp
  have rp: "removePadding (base64Encode bs) = ?body"
    unfolding base64Encode_split using body_plain [of bs] paddingOf_cases [of "length bs"]
    by (intro removePadding_body) blast+
  have l1: "length ?body mod 4 \<noteq> 1" using encoded_length [of bs] by simp
  have al: "\<not> list_ex (\<lambda>c. c \<notin> set base64Alphabet) ?body"
    using body_in_alphabet [of bs] by (simp add: list_ex_iff)
  show ?thesis
    unfolding forgivingBase64Decode_def filter_encoded Let_def
    using l0 l1 al by (simp add: rp index_body decodeSextets_sextetsOf)
qed

lemma ucast_byte_le: "(ucast (b :: 8 word) :: 16 word) \<le> 0xFF"
proof -
  have "unat (ucast b :: 16 word) = take_bit 16 (unat b)"
    by (simp add: unsigned_ucast_eq)
  also have "\<dots> = unat b"
    using unat_byte [of b] by (intro take_bit_nat_eq_self) simp
  finally show ?thesis using unat_byte [of b] by (simp add: word_le_nat_alt)
qed

lemma ucast_byte_back: "(ucast (ucast (b :: 8 word) :: 16 word) :: 8 word) = b"
  by (rule ucast_up_ucast_id) (simp add: is_up)

lemma map_ucast_comp:
  "map ((ucast :: 16 word \<Rightarrow> 8 word) \<circ> (ucast :: 8 word \<Rightarrow> 16 word)) bs = bs"
  by (simp add: ucast_byte_back comp_def)

lemma map_ucast_back: "map ucast (map ucast (bs :: 8 word list) :: 16 word list) = bs"
  by (simp add: map_ucast_comp)

declare encodeLoop.simps [simp del] decodeLoop.simps [simp del]

lemma encodeLoop_eq:
  assumes "i \<le> length bytes"
  shows "encodeLoop bytes i binary = binary @ map ucast (drop i bytes)"
  using assms
proof (induction bytes i binary rule: encodeLoop.induct)
  case (1 bytes i binary)
  show ?case
  proof (cases "i < length bytes")
    case True
    then have "encodeLoop bytes i binary = encodeLoop bytes (i + 1) (binary @ [ucast (bytes ! i)])"
      by (simp add: encodeLoop.simps [of bytes i])
    also have "\<dots> = (binary @ [ucast (bytes ! i)]) @ map ucast (drop (i + 1) bytes)"
      using True by (intro "1.IH") simp_all
    also have "\<dots> = binary @ map ucast (bytes ! i # drop (Suc i) bytes)" by simp
    also have "\<dots> = binary @ map ucast (drop i bytes)"
      using True by (simp only: Cons_nth_drop_Suc)
    finally show ?thesis .
  next
    case False
    with "1.prems" have e: "i = length bytes" by simp
    have "encodeLoop bytes i binary = binary"
      using False by (subst encodeLoop.simps) simp
    then show ?thesis using e by simp
  qed
qed

lemma encodeLoop_map: "encodeLoop bytes 0 [] = map ucast bytes"
  by (simp add: encodeLoop_eq)

lemma decodeLoop_eq:
  assumes "length bytes = length s" and "i \<le> length s"
  shows "decodeLoop s i bytes = take i bytes @ map ucast (drop i s)"
  using assms
proof (induction s i bytes rule: decodeLoop.induct)
  case (1 s i bytes)
  show ?case
  proof (cases "i < length s")
    case True
    let ?bytes' = "bytes[i := ucast (s ! i)]"
    have "decodeLoop s i bytes = decodeLoop s (i + 1) ?bytes'"
      using True by (simp add: decodeLoop.simps [of s i])
    also have "\<dots> = take (i + 1) ?bytes' @ map ucast (drop (i + 1) s)"
      using True "1.prems" by (intro "1.IH") simp_all
    also have "take (i + 1) ?bytes' = take i bytes @ [ucast (s ! i)]"
      using True "1.prems" by (simp add: take_Suc_conv_app_nth)
    also have "(take i bytes @ [ucast (s ! i)]) @ map ucast (drop (i + 1) s)
                 = take i bytes @ map ucast (s ! i # drop (Suc i) s)" by simp
    also have "\<dots> = take i bytes @ map ucast (drop i s)"
      using True by (simp only: Cons_nth_drop_Suc)
    finally show ?thesis .
  next
    case False
    with "1.prems" have e: "i = length s" by simp
    have "decodeLoop s i bytes = bytes"
      using False by (subst decodeLoop.simps) simp
    then show ?thesis using e "1.prems" by simp
  qed
qed

lemma decodeLoop_0: "length bytes = length s \<Longrightarrow> decodeLoop s 0 bytes = map ucast s"
  by (simp add: decodeLoop_eq)

lemma decodeLoop_map: "decodeLoop s 0 (replicate (length s) 0) = map ucast s"
  by (simp add: decodeLoop_0)

lemma btoa_bytes: "btoa (map ucast (bs :: 8 word list)) = Inr (base64Encode bs)"
proof -
  have "\<not> list_ex (\<lambda>c. c > 0xFF) (map ucast bs :: 16 word list)"
    using ucast_byte_le by (simp add: list_ex_iff not_less)
  then show ?thesis unfolding btoa_def by (simp add: map_ucast_comp)
qed

text \<open>The model of \<open>btoa\<close> and \<open>atob\<close> on known values.\<close>

lemma encode_examples:
  "encode [0x4D, 0x61, 0x6E] = Inr (js ''TWFu'')"
  "encode [0x4D, 0x61] = Inr (js ''TWE='')"
  "encode [0x4D] = Inr (js ''TQ=='')"
  "encode [0xFB, 0xFF] = Inr (js ''+/8='')"
  by (simp_all add: encode_def encodeLoop_map btoa_def base64Char_def base64Alphabet_units
      js_def)

lemma decode_examples:
  "decode (js ''TWFu'') = Inr [0x4D, 0x61, 0x6E]"
  "decode (js ''TW E='') = Inr [0x4D, 0x61]"
  "decode (js ''TQ'') = Inr [0x4D]"
  "decode (js ''T'') = Inl InvalidCharacterError"
  "decode (js ''TQ=*'') = Inl InvalidCharacterError"
  by (simp_all add: decode_def decodeLoop_0 atob_def forgivingBase64Decode_def
      removePadding_def isAsciiWhitespace_def base64Index_def base64Alphabet_units js_def
      Let_def)

text \<open>
  C10. For every byte array, \<open>encode\<close> returns a string, and \<open>decode\<close> of that string
  returns the byte array: neither \<open>btoa\<close> nor \<open>atob\<close> throws on the way.
\<close>

theorem decode_encode:
  "\<exists>base64. encode bytes = Inr base64 \<and> decode base64 = Inr bytes"
proof -
  have e: "encode bytes = Inr (base64Encode bytes)"
    unfolding encode_def encodeLoop_map by (rule btoa_bytes)
  have "atob (base64Encode bytes) = Inr (map ucast bytes)"
    by (simp add: atob_def forgivingBase64Decode_base64Encode)
  then have "decode (base64Encode bytes) = Inr bytes"
    by (simp add: decode_def decodeLoop_0 map_ucast_comp)
  with e show ?thesis by blast
qed

end
